theory Spec2Isabelle
  imports Complex_Main "HOL-Library.Sublist" "HOL-Library.AList"
begin

section \<open>Data model (package models)\<close>

text \<open>
  A Go \<open>string\<close> is a byte sequence, so it is a \<open>char list\<close> here and Go's \<open>len\<close> is
  \<open>length\<close>. A Go \<open>error\<close> is represented by the text of its \<open>Error()\<close> method, which is
  all the handler ever inspects. \<open>time.Time\<close> is a wall-clock reading in nanoseconds.
  A \<open>float64\<close> that came out of a JSON number is finite and is read as a real number
  (the two zeros of IEEE 754 are not told apart).
\<close>

type_synonym error = string
type_synonym time = nat

record Annotation =
  ID :: string
  X :: real
  Y :: real
  Z :: real
  Title :: string
  Description :: string
  CreatedAt :: time
  UpdatedAt :: time

text \<open>
  The request structs have the field names of \<open>Annotation\<close> in the source; their fields
  carry a prefix here because record fields are global names.
  \<open>CreateAnnotationRequest\<close> holds plain values, \<open>UpdateAnnotationRequest\<close> holds
  pointers: \<open>None\<close> is the nil pointer.
\<close>

record CreateAnnotationRequest =
  req_X :: real
  req_Y :: real
  req_Z :: real
  req_Title :: string
  req_Description :: string

record UpdateAnnotationRequest =
  upd_X :: "real option"
  upd_Y :: "real option"
  upd_Z :: "real option"
  upd_Title :: "string option"
  upd_Description :: "string option"

text \<open>
  What the handlers write with \<open>c.JSON\<close> and \<open>c.Status\<close>: the HTTP status and the JSON
  envelope. Of \<open>ErrorResponse\<close> the machine code (field \<open>Error\<close>) is kept; the
  human-readable \<open>Message\<close> is not modelled.
\<close>

datatype response =
    ErrorResponse nat string
  | AnnotationResponse nat Annotation
  | AnnotationsResponse nat "Annotation list"
  | Status nat

fun status_of :: "response \<Rightarrow> nat" where
  "status_of (ErrorResponse s c) = s"
| "status_of (AnnotationResponse s a) = s"
| "status_of (AnnotationsResponse s as) = s"
| "status_of (Status s) = s"

definition StatusOK :: nat where "StatusOK = 200"
definition StatusCreated :: nat where "StatusCreated = 201"
definition StatusNoContent :: nat where "StatusNoContent = 204"
definition StatusBadRequest :: nat where "StatusBadRequest = 400"
definition StatusNotFound :: nat where "StatusNotFound = 404"
definition StatusInternalServerError :: nat where "StatusInternalServerError = 500"
definition StatusBadGateway :: nat where "StatusBadGateway = 502"
definition StatusServiceUnavailable :: nat where "StatusServiceUnavailable = 503"

section \<open>Request binding (\<open>ShouldBindJSON\<close> with the \<open>binding\<close> struct tags)\<close>

text \<open>
  The validator behind gin's \<open>binding\<close> tags measures \<open>max=256\<close> on a string with
  \<open>utf8.RuneCountInString\<close>. The function below follows the standard library's loop:
  an ASCII byte is one rune; a lead byte with enough well-formed continuation bytes is one
  rune of 2, 3 or 4 bytes; every other byte counts as one rune of width 1.
\<close>

definition RuneSelf :: nat where "RuneSelf = 0x80"
definition locb :: nat where "locb = 0x80"
definition hicb :: nat where "hicb = 0xBF"

text \<open>The table \<open>first\<close> with its accept ranges: size of the encoding and the bounds of
  the second byte; \<open>None\<close> is the entry \<open>xx\<close> (never a valid lead byte).\<close>

definition first :: "nat \<Rightarrow> (nat \<times> nat \<times> nat) option" where
  "first c =
     (if c < 0xC2 then None
      else if c < 0xE0 then Some (2, locb, hicb)
      else if c = 0xE0 then Some (3, 0xA0, hicb)
      else if c < 0xED then Some (3, locb, hicb)
      else if c = 0xED then Some (3, locb, 0x9F)
      else if c < 0xF0 then Some (3, locb, hicb)
      else if c = 0xF0 then Some (4, 0x90, hicb)
      else if c < 0xF4 then Some (4, locb, hicb)
      else if c = 0xF4 then Some (4, locb, 0x8F)
      else None)"

definition continuation :: "char \<Rightarrow> bool" where
  "continuation c = (locb \<le> (of_char c :: nat) \<and> (of_char c :: nat) \<le> hicb)"

text \<open>The number of bytes one iteration of the loop consumes at the head of the string.\<close>

fun rune_size :: "string \<Rightarrow> nat" where
  "rune_size [] = 0"
| "rune_size (c # cs) =
     (if (of_char c :: nat) < RuneSelf then 1
      else case first (of_char c) of
        None \<Rightarrow> 1
      | Some (sz, lo, hi) \<Rightarrow>
          if length cs + 1 < sz then 1
          else if (of_char (cs ! 0) :: nat) < lo \<or> hi < (of_char (cs ! 0) :: nat) then 1
          else if sz = 2 then 2
          else if \<not> continuation (cs ! 1) then 1
          else if sz = 3 then 3
          else if \<not> continuation (cs ! 2) then 1
          else 4)"

fun RuneCountInString :: "string \<Rightarrow> nat" where
  "RuneCountInString [] = 0"
| "RuneCountInString (c # cs) = Suc (RuneCountInString (drop (rune_size (c # cs) - 1) cs))"

text \<open>
  The body of a request as \<open>encoding/json\<close> sees it: either it does not decode into the
  struct (syntax error, wrong type), or it is an object in which each known key is absent
  (or \<open>null\<close>) or carries a value.
\<close>

record CreateJSON =
  json_x :: "real option"
  json_y :: "real option"
  json_z :: "real option"
  json_title :: "string option"
  json_description :: "string option"

datatype 'a body = Undecodable | Object 'a

datatype bind_error = DecodeError | ValidationErrors "(string \<times> string) list"

text \<open>Decoding leaves the zero value in every field the object does not set.\<close>

definition decode_Create :: "CreateJSON \<Rightarrow> CreateAnnotationRequest" where
  "decode_Create j =
     \<lparr>req_X = (case json_x j of None \<Rightarrow> 0 | Some v \<Rightarrow> v),
      req_Y = (case json_y j of None \<Rightarrow> 0 | Some v \<Rightarrow> v),
      req_Z = (case json_z j of None \<Rightarrow> 0 | Some v \<Rightarrow> v),
      req_Title = (case json_title j of None \<Rightarrow> [] | Some s \<Rightarrow> s),
      req_Description = (case json_description j of None \<Rightarrow> [] | Some s \<Rightarrow> s)\<rparr>"

text \<open>
  The tags of \<open>CreateAnnotationRequest\<close>: \<open>required\<close> fails on the zero value of the
  field's type (\<open>0\<close> for a \<open>float64\<close>, the empty string), \<open>max=256\<close> on more than 256
  runes. A field reports the first of its tags that fails, fields in struct order.
\<close>

definition validate_Create :: "CreateAnnotationRequest \<Rightarrow> (string \<times> string) list" where
  "validate_Create r =
     (if req_X r = 0 then [(''X'', ''required'')] else []) @
     (if req_Y r = 0 then [(''Y'', ''required'')] else []) @
     (if req_Z r = 0 then [(''Z'', ''required'')] else []) @
     (if req_Title r = [] then [(''Title'', ''required'')]
      else if 256 < RuneCountInString (req_Title r) then [(''Title'', ''max'')] else []) @
     (if 256 < RuneCountInString (req_Description r) then [(''Description'', ''max'')] else [])"

definition ShouldBindJSON_Create :: "CreateJSON body \<Rightarrow> bind_error + CreateAnnotationRequest" where
  "ShouldBindJSON_Create b =
     (case b of
        Undecodable \<Rightarrow> Inl DecodeError
      | Object j \<Rightarrow>
          (let r = decode_Create j
           in if validate_Create r = [] then Inr r else Inl (ValidationErrors (validate_Create r))))"

text \<open>
  The tags of \<open>UpdateAnnotationRequest\<close>: the coordinates carry none;
  \<open>omitempty,max=256\<close> skips a nil pointer and otherwise bounds the runes of the string
  pointed to. The JSON object decodes field by field into the pointers, so the decoded
  object is the request itself.
\<close>

definition validate_Update :: "UpdateAnnotationRequest \<Rightarrow> (string \<times> string) list" where
  "validate_Update r =
     (case upd_Title r of
        None \<Rightarrow> []
      | Some s \<Rightarrow> if 256 < RuneCountInString s then [(''Title'', ''max'')] else []) @
     (case upd_Description r of
        None \<Rightarrow> []
      | Some s \<Rightarrow> if 256 < RuneCountInString s then [(''Description'', ''max'')] else [])"

definition ShouldBindJSON_Update :: "UpdateAnnotationRequest body \<Rightarrow> bind_error + UpdateAnnotationRequest" where
  "ShouldBindJSON_Update b =
     (case b of
        Undecodable \<Rightarrow> Inl DecodeError
      | Object r \<Rightarrow> if validate_Update r = [] then Inr r else Inl (ValidationErrors (validate_Update r)))"

section \<open>The world outside the process\<close>

text \<open>
  The handler talks to PostgreSQL, to Redis, to the wall clock and to the UUID generator.
  The state of the two servers is explicit: the rows of table \<open>annotations\<close> in
  insertion order, and the Redis keyspace. Everything the code cannot control is an
  oracle indexed by a counter: \<open>pg_errors\<close> tells for the n-th statement sent through the
  pool whether the driver returns an error (and its text) instead of executing it, which
  covers transport failures as well as statements the engine rejects (a violated
  constraint, a text that is not valid input for the type of a column); \<open>redis_errors\<close>
  does the same for the n-th Redis command; \<open>clock\<close> is the n-th reading of
  \<open>time.Now()\<close>; \<open>uuids\<close> the n-th result of \<open>uuid.New()\<close>.
  Expiry of Redis keys after their TTL is not modelled; the TTL is stored with the value.
\<close>

datatype payload = AnnotationJSON Annotation | AnnotationsJSON "Annotation list" | Garbage

record world =
  annotations :: "Annotation list"
  redis :: "string \<rightharpoonup> payload \<times> nat"
  pg_errors :: "nat \<Rightarrow> error option"
  pg_calls :: nat
  redis_errors :: "nat \<Rightarrow> error option"
  redis_calls :: nat
  clock :: "nat \<Rightarrow> time"
  clock_reads :: nat
  uuids :: "nat \<Rightarrow> string"
  uuid_draws :: nat

definition time_Now :: "world \<Rightarrow> world \<times> time" where
  "time_Now w = (w\<lparr>clock_reads := Suc (clock_reads w)\<rparr>, clock w (clock_reads w))"

definition uuid_New :: "world \<Rightarrow> world \<times> string" where
  "uuid_New w = (w\<lparr>uuid_draws := Suc (uuid_draws w)\<rparr>, uuids w (uuid_draws w))"

definition pool_call :: "world \<Rightarrow> world \<times> error option" where
  "pool_call w = (w\<lparr>pg_calls := Suc (pg_calls w)\<rparr>, pg_errors w (pg_calls w))"

definition redis_call :: "world \<Rightarrow> world \<times> error option" where
  "redis_call w = (w\<lparr>redis_calls := Suc (redis_calls w)\<rparr>, redis_errors w (redis_calls w))"

section \<open>Store (package database, \<open>PostgresRepository\<close>)\<close>

definition PostgresRepository_Create ::
  "world \<Rightarrow> CreateAnnotationRequest \<Rightarrow> world \<times> (error + Annotation)" where
  "PostgresRepository_Create w req =
     (let (w1, newid) = uuid_New w;
          (w2, created) = time_Now w1;
          (w3, updated) = time_Now w2;
          annotation = \<lparr>ID = newid, X = req_X req, Y = req_Y req, Z = req_Z req,
                        Title = req_Title req, Description = req_Description req,
                        CreatedAt = created, UpdatedAt = updated\<rparr>;
          (w4, err) = pool_call w3
      in case err of
           Some e \<Rightarrow> (w4, Inl (''failed to create annotation: '' @ e))
         | None \<Rightarrow> (w4\<lparr>annotations := annotations w4 @ [annotation]\<rparr>, Inr annotation))"

text \<open>\<open>QueryRow(...).Scan\<close>: \<open>pgx.ErrNoRows\<close> is the answer \<open>Inr None\<close> (nil, nil).\<close>

definition PostgresRepository_GetByID ::
  "world \<Rightarrow> string \<Rightarrow> world \<times> (error + Annotation option)" where
  "PostgresRepository_GetByID w i =
     (let (w1, err) = pool_call w
      in case err of
           Some e \<Rightarrow> (w1, Inl (''failed to get annotation: '' @ e))
         | None \<Rightarrow> (w1, Inr (find (\<lambda>a. ID a = i) (annotations w1))))"

text \<open>
  \<open>ORDER BY created_at DESC\<close>; rows of equal \<open>created_at\<close> come in an order the engine
  chooses, here newest insertion first. The scan loop runs only when there are rows; one
  oracle reading stands for it, since a failing scan discards the whole result.
\<close>

definition PostgresRepository_GetAll :: "world \<Rightarrow> world \<times> (error + Annotation list)" where
  "PostgresRepository_GetAll w =
     (let (w1, err) = pool_call w
      in case err of
           Some e \<Rightarrow> (w1, Inl (''failed to get annotations: '' @ e))
         | None \<Rightarrow>
             if annotations w1 = [] then (w1, Inr [])
             else (let (w2, scan_err) = pool_call w1
                   in case scan_err of
                        Some e \<Rightarrow> (w2, Inl (''failed to scan annotation: '' @ e))
                      | None \<Rightarrow> (w2, Inr (rev (sort_key CreatedAt (annotations w2))))))"

definition apply_updates :: "Annotation \<Rightarrow> UpdateAnnotationRequest \<Rightarrow> Annotation" where
  "apply_updates existing req =
     (let e1 = (case upd_X req of None \<Rightarrow> existing | Some v \<Rightarrow> existing\<lparr>X := v\<rparr>);
          e2 = (case upd_Y req of None \<Rightarrow> e1 | Some v \<Rightarrow> e1\<lparr>Y := v\<rparr>);
          e3 = (case upd_Z req of None \<Rightarrow> e2 | Some v \<Rightarrow> e2\<lparr>Z := v\<rparr>);
          e4 = (case upd_Title req of None \<Rightarrow> e3 | Some s \<Rightarrow> e3\<lparr>Title := s\<rparr>)
      in (case upd_Description req of None \<Rightarrow> e4 | Some s \<Rightarrow> e4\<lparr>Description := s\<rparr>))"

text \<open>The \<open>UPDATE ... WHERE id = $1\<close> statement: every column but \<open>id\<close> and \<open>created_at\<close>.\<close>

definition sql_update :: "Annotation \<Rightarrow> Annotation list \<Rightarrow> Annotation list" where
  "sql_update e rows =
     map (\<lambda>a. if ID a = ID e
               then a\<lparr>X := X e, Y := Y e, Z := Z e, Title := Title e,
                      Description := Description e, UpdatedAt := UpdatedAt e\<rparr>
               else a) rows"

definition PostgresRepository_Update ::
  "world \<Rightarrow> string \<Rightarrow> UpdateAnnotationRequest \<Rightarrow> world \<times> (error + Annotation option)" where
  "PostgresRepository_Update w i req =
     (case PostgresRepository_GetByID w i of
        (w1, Inl e) \<Rightarrow> (w1, Inl e)
      | (w1, Inr None) \<Rightarrow> (w1, Inr None)
      | (w1, Inr (Some found)) \<Rightarrow>
          (let (w2, now) = time_Now w1;
               existing = (apply_updates found req)\<lparr>UpdatedAt := now\<rparr>;
               (w3, err) = pool_call w2
           in case err of
                Some e \<Rightarrow> (w3, Inl (''failed to update annotation: '' @ e))
              | None \<Rightarrow>
                  (w3\<lparr>annotations := sql_update existing (annotations w3)\<rparr>, Inr (Some existing))))"

definition PostgresRepository_Delete :: "world \<Rightarrow> string \<Rightarrow> world \<times> error option" where
  "PostgresRepository_Delete w i =
     (let (w1, err) = pool_call w
      in case err of
           Some e \<Rightarrow> (w1, Some (''failed to delete annotation: '' @ e))
         | None \<Rightarrow>
             (let RowsAffected = length (filter (\<lambda>a. ID a = i) (annotations w1));
                  w2 = w1\<lparr>annotations := filter (\<lambda>a. ID a \<noteq> i) (annotations w1)\<rparr>
              in if RowsAffected = 0 then (w2, Some ''annotation not found'') else (w2, None)))"

section \<open>Cache (package cache, \<open>RedisCache\<close>)\<close>

definition annotationKeyPrefix :: string where "annotationKeyPrefix = ''annotation:''"
definition allAnnotationsKey :: string where "allAnnotationsKey = ''annotations:all''"

definition Minute :: nat where "Minute = 60 * 1000000000"
definition defaultTTL :: nat where "defaultTTL = 5 * Minute"

text \<open>The three Redis commands the cache uses. \<open>RedisNil\<close> is the reply \<open>redis.Nil\<close>.\<close>

datatype reply = RedisNil | Failed error | Bytes payload

definition client_Get :: "world \<Rightarrow> string \<Rightarrow> world \<times> reply" where
  "client_Get w key =
     (let (w1, err) = redis_call w
      in case err of
           Some e \<Rightarrow> (w1, Failed e)
         | None \<Rightarrow> (case redis w1 key of None \<Rightarrow> (w1, RedisNil) | Some (v, ttl) \<Rightarrow> (w1, Bytes v)))"

definition client_Set :: "world \<Rightarrow> string \<Rightarrow> payload \<Rightarrow> nat \<Rightarrow> world \<times> error option" where
  "client_Set w key v ttl =
     (let (w1, err) = redis_call w
      in case err of
           Some e \<Rightarrow> (w1, Some e)
         | None \<Rightarrow> (w1\<lparr>redis := (redis w1)(key \<mapsto> (v, ttl))\<rparr>, None))"

definition client_Del :: "world \<Rightarrow> string \<Rightarrow> world \<times> error option" where
  "client_Del w key =
     (let (w1, err) = redis_call w
      in case err of
           Some e \<Rightarrow> (w1, Some e)
         | None \<Rightarrow> (w1\<lparr>redis := (redis w1)(key := None)\<rparr>, None))"

text \<open>
  \<open>json.Marshal\<close> of an annotation fails only on a coordinate that is not finite, which
  the type of coordinates excludes here; the source's error branch is kept in
  \<open>RedisCache_Set\<close>. \<open>json.Unmarshal\<close> fails on a payload of the wrong shape.
\<close>

definition Marshal_Annotation :: "Annotation \<Rightarrow> error + payload" where
  "Marshal_Annotation a = Inr (AnnotationJSON a)"

definition Marshal_Annotations :: "Annotation list \<Rightarrow> error + payload" where
  "Marshal_Annotations as = Inr (AnnotationsJSON as)"

fun Unmarshal_Annotation :: "payload \<Rightarrow> error + Annotation" where
  "Unmarshal_Annotation (AnnotationJSON a) = Inr a"
| "Unmarshal_Annotation (AnnotationsJSON as) =
     Inl ''json: cannot unmarshal array into Go value of type models.Annotation''"
| "Unmarshal_Annotation Garbage = Inl ''invalid character''"

fun Unmarshal_Annotations :: "payload \<Rightarrow> error + Annotation list" where
  "Unmarshal_Annotations (AnnotationsJSON as) = Inr as"
| "Unmarshal_Annotations (AnnotationJSON a) =
     Inl ''json: cannot unmarshal object into Go value of type []models.Annotation''"
| "Unmarshal_Annotations Garbage = Inl ''invalid character''"

text \<open>\<open>Get\<close> returns the pair (annotation, err) of the source.\<close>

definition RedisCache_Get :: "world \<Rightarrow> string \<Rightarrow> world \<times> (Annotation option \<times> error option)" where
  "RedisCache_Get w i =
     (let key = annotationKeyPrefix @ i;
          (w1, r) = client_Get w key
      in case r of
           RedisNil \<Rightarrow> (w1, (None, None))
         | Failed e \<Rightarrow> (w1, (None, None))
         | Bytes v \<Rightarrow>
             (case Unmarshal_Annotation v of
                Inl e \<Rightarrow> (w1, (None, None))
              | Inr annotation \<Rightarrow> (w1, (Some annotation, None))))"

text \<open>\<open>GetAll\<close> returns the triple (annotations, found, err); a nil slice is \<open>[]\<close>.\<close>

definition RedisCache_GetAll :: "world \<Rightarrow> world \<times> (Annotation list \<times> bool \<times> error option)" where
  "RedisCache_GetAll w =
     (let (w1, r) = client_Get w allAnnotationsKey
      in case r of
           RedisNil \<Rightarrow> (w1, ([], False, None))
         | Failed e \<Rightarrow> (w1, ([], False, None))
         | Bytes v \<Rightarrow>
             (case Unmarshal_Annotations v of
                Inl e \<Rightarrow> (w1, ([], False, None))
              | Inr as \<Rightarrow> (w1, (as, True, None))))"

definition RedisCache_InvalidateAll :: "world \<Rightarrow> world \<times> error option" where
  "RedisCache_InvalidateAll w = client_Del w allAnnotationsKey"

definition RedisCache_Set :: "world \<Rightarrow> Annotation \<Rightarrow> world \<times> error option" where
  "RedisCache_Set w annotation =
     (let key = annotationKeyPrefix @ ID annotation
      in case Marshal_Annotation annotation of
           Inl e \<Rightarrow> (w, Some e)
         | Inr data \<Rightarrow>
             (case client_Set w key data defaultTTL of
                (w1, Some e) \<Rightarrow> (w1, Some e)
              | (w1, None) \<Rightarrow> (let (w2, _) = RedisCache_InvalidateAll w1 in (w2, None))))"

definition RedisCache_SetAll :: "world \<Rightarrow> Annotation list \<Rightarrow> world \<times> error option" where
  "RedisCache_SetAll w as =
     (case Marshal_Annotations as of
        Inl e \<Rightarrow> (w, Some e)
      | Inr data \<Rightarrow> client_Set w allAnnotationsKey data defaultTTL)"

definition RedisCache_Delete :: "world \<Rightarrow> string \<Rightarrow> world \<times> error option" where
  "RedisCache_Delete w i =
     (let key = annotationKeyPrefix @ i
      in case client_Del w key of
           (w1, Some e) \<Rightarrow> (w1, Some e)
         | (w1, None) \<Rightarrow> (let (w2, _) = RedisCache_InvalidateAll w1 in (w2, None)))"

section \<open>Annotation service (package handler)\<close>

text \<open>Each handler takes the world and the request and returns the world and the response.\<close>

definition Handler_Create :: "world \<Rightarrow> CreateJSON body \<Rightarrow> world \<times> response" where
  "Handler_Create w b =
     (case ShouldBindJSON_Create b of
        Inl e \<Rightarrow> (w, ErrorResponse StatusBadRequest ''invalid_request'')
      | Inr req \<Rightarrow>
          if 256 < length (req_Title req)
          then (w, ErrorResponse StatusBadRequest ''invalid_request'')
          else (case PostgresRepository_Create w req of
                  (w1, Inl e) \<Rightarrow> (w1, ErrorResponse StatusInternalServerError ''internal_error'')
                | (w1, Inr annotation) \<Rightarrow>
                    (let (w2, _) = RedisCache_Set w1 annotation
                     in (w2, AnnotationResponse StatusCreated annotation))))"

definition Handler_GetAll :: "world \<Rightarrow> world \<times> response" where
  "Handler_GetAll w =
     (let (w1, (cached, found, err)) = RedisCache_GetAll w
      in if err = None \<and> found then (w1, AnnotationsResponse StatusOK cached)
         else (case PostgresRepository_GetAll w1 of
                 (w2, Inl e) \<Rightarrow> (w2, ErrorResponse StatusInternalServerError ''internal_error'')
               | (w2, Inr stored) \<Rightarrow>
                   (let (w3, _) = RedisCache_SetAll w2 stored
                    in (w3, AnnotationsResponse StatusOK stored))))"

definition Handler_GetByID :: "world \<Rightarrow> string \<Rightarrow> world \<times> response" where
  "Handler_GetByID w i =
     (let (w1, (cached, err)) = RedisCache_Get w i
      in case (if err = None then cached else None) of
           Some annotation \<Rightarrow> (w1, AnnotationResponse StatusOK annotation)
         | None \<Rightarrow>
             (case PostgresRepository_GetByID w1 i of
                (w2, Inl e) \<Rightarrow> (w2, ErrorResponse StatusInternalServerError ''internal_error'')
              | (w2, Inr None) \<Rightarrow> (w2, ErrorResponse StatusNotFound ''not_found'')
              | (w2, Inr (Some annotation)) \<Rightarrow>
                  (let (w3, _) = RedisCache_Set w2 annotation
                   in (w3, AnnotationResponse StatusOK annotation))))"

definition Handler_Update ::
  "world \<Rightarrow> string \<Rightarrow> UpdateAnnotationRequest body \<Rightarrow> world \<times> response" where
  "Handler_Update w i b =
     (case ShouldBindJSON_Update b of
        Inl e \<Rightarrow> (w, ErrorResponse StatusBadRequest ''invalid_request'')
      | Inr req \<Rightarrow>
          if (case upd_Title req of None \<Rightarrow> False | Some s \<Rightarrow> 256 < length s)
          then (w, ErrorResponse StatusBadRequest ''invalid_request'')
          else (case PostgresRepository_Update w i req of
                  (w1, Inl e) \<Rightarrow> (w1, ErrorResponse StatusInternalServerError ''internal_error'')
                | (w1, Inr None) \<Rightarrow> (w1, ErrorResponse StatusNotFound ''not_found'')
                | (w1, Inr (Some annotation)) \<Rightarrow>
                    (let (w2, _) = RedisCache_Set w1 annotation
                     in (w2, AnnotationResponse StatusOK annotation))))"

definition Handler_Delete :: "world \<Rightarrow> string \<Rightarrow> world \<times> response" where
  "Handler_Delete w i =
     (case PostgresRepository_Delete w i of
        (w1, Some e) \<Rightarrow>
          if e = ''annotation not found''
          then (w1, ErrorResponse StatusNotFound ''not_found'')
          else (w1, ErrorResponse StatusInternalServerError ''internal_error'')
      | (w1, None) \<Rightarrow>
          (let (w2, _) = RedisCache_Delete w1 i
           in (w2, Status StatusNoContent)))"

section \<open>Proxy (package gateway)\<close>

record Config =
  Role :: string
  ServerPort :: string
  HandlerURL :: string
  DatabaseURL :: string
  RedisURL :: string
  Environment :: string


record Gateway =
  cfg :: Config
  httpClient_Timeout :: nat


type_synonym header = "(string \<times> string list) list"

record URL =
  url_Scheme :: string
  url_Host :: string
  url_Path :: string
  url_RawQuery :: string

text \<open>The inbound request. \<open>Body\<close> is \<open>None\<close> for a nil body; reading it gives the bytes
  or an error.\<close>

record Request =
  Method :: string
  URL_Path :: string
  URL_RawQuery :: string
  Header :: header
  Body :: "(error + string) option"

record ProxyRequest =
  out_Method :: string
  out_URL :: string
  out_Header :: header
  out_Body :: string

record Response =
  StatusCode :: nat
  resp_Header :: header
  resp_Body :: "error + string"

text \<open>
  The standard library and the upstream are parameters of the proxy: \<open>url.Parse\<close>,
  \<open>URL.String\<close>, whether \<open>http.NewRequestWithContext\<close> refuses a method and URL, and
  \<open>httpClient.Do\<close>, which answers with a response or with a transport error. The error
  a timed-out client returns is one of the errors of \<open>Do\<close>.
\<close>

record net =
  url_Parse :: "string \<Rightarrow> error + URL"
  url_String :: "URL \<Rightarrow> string"
  NewRequest :: "string \<Rightarrow> string \<Rightarrow> error option"
  Do :: "ProxyRequest \<Rightarrow> error + Response"

definition Header_Get :: "header \<Rightarrow> string \<Rightarrow> string" where
  "Header_Get h k = (case map_of h k of None \<Rightarrow> [] | Some [] \<Rightarrow> [] | Some (v # vs) \<Rightarrow> v)"

definition Header_Add :: "header \<Rightarrow> string \<Rightarrow> string \<Rightarrow> header" where
  "Header_Add h k v =
     (case map_of h k of None \<Rightarrow> h @ [(k, [v])] | Some vs \<Rightarrow> AList.update k (vs @ [v]) h)"

definition Header_Set :: "header \<Rightarrow> string \<Rightarrow> string \<Rightarrow> header" where
  "Header_Set h k v = AList.update k [v] h"

text \<open>gin's \<open>c.Header\<close>: an empty value deletes the key, any other value replaces it.\<close>

definition Context_Header :: "header \<Rightarrow> string \<Rightarrow> string \<Rightarrow> header" where
  "Context_Header h k v = (if v = [] then AList.delete k h else Header_Set h k v)"

text \<open>\<open>strings.Contains\<close>.\<close>

fun Contains :: "string \<Rightarrow> string \<Rightarrow> bool" where
  "Contains [] substr = (substr = [])"
| "Contains (c # cs) substr = (prefix substr (c # cs) \<or> Contains cs substr)"

datatype gateway_response =
    JSON nat string
  | Data nat header string string

text \<open>The result is the response written to the client and the outbound requests that
  were handed to \<open>httpClient.Do\<close>.\<close>

definition Gateway_proxyToHandler ::
  "Gateway \<Rightarrow> net \<Rightarrow> Request \<Rightarrow> gateway_response \<times> ProxyRequest list" where
  "Gateway_proxyToHandler g n req =
     (case url_Parse n (HandlerURL (cfg g)) of
        Inl e \<Rightarrow> (JSON StatusInternalServerError ''configuration_error'', [])
      | Inr parsed \<Rightarrow>
          (let targetURL = parsed\<lparr>url_Path := URL_Path req, url_RawQuery := URL_RawQuery req\<rparr>
           in case (case Body req of None \<Rightarrow> Inr [] | Some r \<Rightarrow> r) of
                Inl e \<Rightarrow> (JSON StatusInternalServerError ''internal_error'', [])
              | Inr bodyBytes \<Rightarrow>
                  (case NewRequest n (Method req) (url_String n targetURL) of
                     Some e \<Rightarrow> (JSON StatusInternalServerError ''internal_error'', [])
                   | None \<Rightarrow>
                       (let copied = fold (\<lambda>(key, values) h. fold (\<lambda>v h'. Header_Add h' key v) values h)
                                       (Header req) [];
                            hdr = (if 0 < length bodyBytes \<and> Header_Get copied ''Content-Type'' = []
                                   then Header_Set copied ''Content-Type'' ''application/json''
                                   else copied);
                            proxyReq = \<lparr>out_Method = Method req, out_URL = url_String n targetURL,
                                        out_Header = hdr, out_Body = bodyBytes\<rparr>
                        in case Do n proxyReq of
                             Inl e \<Rightarrow>
                               if Contains e ''connection refused''
                               then (JSON StatusServiceUnavailable ''service_unavailable'', [proxyReq])
                               else (JSON StatusBadGateway ''proxy_error'', [proxyReq])
                           | Inr resp \<Rightarrow>
                               (case resp_Body resp of
                                  Inl e \<Rightarrow> (JSON StatusInternalServerError ''internal_error'', [proxyReq])
                                | Inr respBody \<Rightarrow>
                                    (Data (StatusCode resp)
                                       (fold (\<lambda>(key, values) h. fold (\<lambda>v h'. Context_Header h' key v) values h)
                                          (resp_Header resp) [])
                                       (Header_Get (resp_Header resp) ''Content-Type'')
                                       respBody, [proxyReq]))))))"

section \<open>Vocabulary of the properties and example inputs\<close>



text \<open>Requests that mutate nothing, and the world after a sequence of them.\<close>

datatype read = ReadAll | ReadByID string

fun run_read :: "world \<Rightarrow> read \<Rightarrow> world" where
  "run_read w ReadAll = fst (Handler_GetAll w)"
| "run_read w (ReadByID i) = fst (Handler_GetByID w i)"

fun run_reads :: "world \<Rightarrow> read list \<Rightarrow> world" where
  "run_reads w [] = w"
| "run_reads w (r # rs) = run_reads (run_read w r) rs"

text \<open>
  A world in which PostgreSQL and Redis answer every call, the wall clock advances by
  83 ns from one reading to the next, and the table and the keyspace are given.
\<close>

definition quiet :: "Annotation list \<Rightarrow> (string \<rightharpoonup> payload \<times> nat) \<Rightarrow> world" where
  "quiet rows kv =
     \<lparr>annotations = rows, redis = kv,
      pg_errors = (\<lambda>n. None), pg_calls = 0,
      redis_errors = (\<lambda>n. None), redis_calls = 0,
      clock = (\<lambda>n. 1700000000000000000 + 83 * n), clock_reads = 0,
      uuids = (\<lambda>n. ''6ba7b810-9dad-11d1-80b4-00c04fd430c8''), uuid_draws = 0\<rparr>"

definition poi :: Annotation where
  "poi = \<lparr>ID = ''6ba7b810-9dad-11d1-80b4-00c04fd430c8'', X = 1.5, Y = 2.5, Z = 3.5,
          Title = ''POI'', Description = [],
          CreatedAt = 1600000000000000000, UpdatedAt = 1600000000000000000\<rparr>"

text \<open>The request body \<open>{"x":1.5,"y":2.5,"z":3.5,"title":"POI"}\<close>.\<close>

definition poi_json :: CreateJSON where
  "poi_json = \<lparr>json_x = Some 1.5, json_y = Some 2.5, json_z = Some 3.5,
               json_title = Some ''POI'', json_description = None\<rparr>"

text \<open>The euro sign in UTF-8, and a text of one hundred of them: 300 bytes, 100 runes.\<close>

definition euro :: string where
  "euro = [CHR 0xE2, CHR 0x82, CHR 0xAC]"

definition euros :: string where
  "euros = concat (replicate 100 euro)"

text \<open>A keyspace that holds the record and the list, and a world whose Redis refuses
  every command.\<close>

definition warm :: "string \<rightharpoonup> payload \<times> nat" where
  "warm = [annotationKeyPrefix @ ID poi \<mapsto> (AnnotationJSON poi, defaultTTL),
           allAnnotationsKey \<mapsto> (AnnotationsJSON [poi], defaultTTL)]"

definition redis_down :: "world \<Rightarrow> world" where
  "redis_down w = w\<lparr>redis_errors := (\<lambda>n. Some ''dial tcp 10.0.0.7:6379: connect: connection refused'')\<rparr>"









text \<open>The request body \<open>{}\<close>: every field absent.\<close>

definition no_update :: UpdateAnnotationRequest where
  "no_update = \<lparr>upd_X = None, upd_Y = None, upd_Z = None, upd_Title = None, upd_Description = None\<rparr>"

section \<open>Facts about the model\<close>

lemmas http_status_defs =
  StatusOK_def StatusCreated_def StatusNoContent_def StatusBadRequest_def StatusNotFound_def
  StatusInternalServerError_def StatusBadGateway_def StatusServiceUnavailable_def

lemmas env_defs = time_Now_def uuid_New_def pool_call_def redis_call_def

subsection \<open>Strings and binding\<close>

lemma RuneCountInString_le_length: "RuneCountInString s \<le> length s"
proof (induction s rule: RuneCountInString.induct)
  case 1
  show ?case by simp
next
  case (2 c cs)
  have "RuneCountInString (drop (rune_size (c # cs) - 1) cs) \<le> length cs"
    using 2 by (simp add: le_diff_conv)
  then show ?case by simp
qed

lemma RuneCountInString_euro: "RuneCountInString (euro @ s) = Suc (RuneCountInString s)"
  by (simp add: euro_def RuneSelf_def first_def locb_def hicb_def continuation_def)

lemma RuneCountInString_euros_n: "RuneCountInString (concat (replicate n euro)) = n"
  by (induction n) (simp_all add: RuneCountInString_euro)

lemma RuneCountInString_euros: "RuneCountInString euros = 100"
  by (simp add: euros_def RuneCountInString_euros_n)

lemma length_euros: "length euros = 300"
  by (simp add: euros_def euro_def length_concat sum_list_replicate)

lemma ShouldBindJSON_Create_Inr:
  "ShouldBindJSON_Create b = Inr r \<longleftrightarrow>
     (\<exists>j. b = Object j \<and> r = decode_Create j \<and> req_X r \<noteq> 0 \<and> req_Y r \<noteq> 0 \<and> req_Z r \<noteq> 0 \<and>
          req_Title r \<noteq> [] \<and> RuneCountInString (req_Title r) \<le> 256 \<and>
          RuneCountInString (req_Description r) \<le> 256)"
  by (cases b) (auto simp: ShouldBindJSON_Create_def validate_Create_def Let_def split: if_splits)

lemma ShouldBindJSON_Update_Inr:
  "ShouldBindJSON_Update b = Inr r \<longleftrightarrow>
     (b = Object r \<and>
      (\<forall>s. upd_Title r = Some s \<longrightarrow> RuneCountInString s \<le> 256) \<and>
      (\<forall>s. upd_Description r = Some s \<longrightarrow> RuneCountInString s \<le> 256))"
  by (cases b) (auto simp: ShouldBindJSON_Update_def validate_Update_def split: if_splits option.splits)


lemma Update_accepts_zero_coordinate:
  "ShouldBindJSON_Update (Object (no_update\<lparr>upd_X := Some 0\<rparr>)) = Inr (no_update\<lparr>upd_X := Some 0\<rparr>)"
  by (simp add: ShouldBindJSON_Update_Inr no_update_def)

subsection \<open>The Redis commands\<close>

lemma client_Get_frame [simp]:
  "annotations (fst (client_Get w k)) = annotations w"
  "redis (fst (client_Get w k)) = redis w"
  "pg_errors (fst (client_Get w k)) = pg_errors w"
  "pg_calls (fst (client_Get w k)) = pg_calls w"
  "redis_errors (fst (client_Get w k)) = redis_errors w"
  "redis_calls (fst (client_Get w k)) = Suc (redis_calls w)"
  "clock (fst (client_Get w k)) = clock w"
  "clock_reads (fst (client_Get w k)) = clock_reads w"
  "uuids (fst (client_Get w k)) = uuids w"
  "uuid_draws (fst (client_Get w k)) = uuid_draws w"
  by (simp_all add: client_Get_def redis_call_def split: option.splits prod.splits)

lemma client_Set_frame [simp]:
  "annotations (fst (client_Set w k v t)) = annotations w"
  "pg_errors (fst (client_Set w k v t)) = pg_errors w"
  "pg_calls (fst (client_Set w k v t)) = pg_calls w"
  "redis_errors (fst (client_Set w k v t)) = redis_errors w"
  "redis_calls (fst (client_Set w k v t)) = Suc (redis_calls w)"
  "clock (fst (client_Set w k v t)) = clock w"
  "clock_reads (fst (client_Set w k v t)) = clock_reads w"
  "uuids (fst (client_Set w k v t)) = uuids w"
  "uuid_draws (fst (client_Set w k v t)) = uuid_draws w"
  by (simp_all add: client_Set_def redis_call_def split: option.splits prod.splits)

lemma client_Del_frame [simp]:
  "annotations (fst (client_Del w k)) = annotations w"
  "pg_errors (fst (client_Del w k)) = pg_errors w"
  "pg_calls (fst (client_Del w k)) = pg_calls w"
  "redis_errors (fst (client_Del w k)) = redis_errors w"
  "redis_calls (fst (client_Del w k)) = Suc (redis_calls w)"
  "clock (fst (client_Del w k)) = clock w"
  "clock_reads (fst (client_Del w k)) = clock_reads w"
  "uuids (fst (client_Del w k)) = uuids w"
  "uuid_draws (fst (client_Del w k)) = uuid_draws w"
  by (simp_all add: client_Del_def redis_call_def split: option.splits prod.splits)


lemma key_not_all [simp]: "annotationKeyPrefix @ i \<noteq> allAnnotationsKey"
  "allAnnotationsKey \<noteq> annotationKeyPrefix @ i"
  by (simp_all add: annotationKeyPrefix_def allAnnotationsKey_def)

subsection \<open>The cache operations\<close>

lemma RedisCache_Get_frame [simp]:
  "annotations (fst (RedisCache_Get w i)) = annotations w"
  "redis (fst (RedisCache_Get w i)) = redis w"
  "pg_errors (fst (RedisCache_Get w i)) = pg_errors w"
  "pg_calls (fst (RedisCache_Get w i)) = pg_calls w"
  "redis_errors (fst (RedisCache_Get w i)) = redis_errors w"
  "redis_calls (fst (RedisCache_Get w i)) = Suc (redis_calls w)"
  "clock (fst (RedisCache_Get w i)) = clock w"
  "clock_reads (fst (RedisCache_Get w i)) = clock_reads w"
  "uuids (fst (RedisCache_Get w i)) = uuids w"
  "uuid_draws (fst (RedisCache_Get w i)) = uuid_draws w"
  by (simp_all add: RedisCache_Get_def client_Get_def redis_call_def
      split: option.splits prod.splits reply.splits sum.splits)

lemma RedisCache_Get_result:
  "snd (RedisCache_Get w i) =
     (case redis_errors w (redis_calls w) of
        Some e \<Rightarrow> (None, None)
      | None \<Rightarrow>
          (case redis w (annotationKeyPrefix @ i) of
             Some (AnnotationJSON a, t) \<Rightarrow> (Some a, None)
           | _ \<Rightarrow> (None, None)))"
  by (simp add: RedisCache_Get_def client_Get_def redis_call_def
      split: option.splits prod.splits reply.splits sum.splits payload.splits)

lemma RedisCache_Get_no_error: "snd (snd (RedisCache_Get w i)) = None"
  by (simp add: RedisCache_Get_result split: option.splits prod.splits payload.splits)


lemma RedisCache_GetAll_frame [simp]:
  "annotations (fst (RedisCache_GetAll w)) = annotations w"
  "redis (fst (RedisCache_GetAll w)) = redis w"
  "pg_errors (fst (RedisCache_GetAll w)) = pg_errors w"
  "pg_calls (fst (RedisCache_GetAll w)) = pg_calls w"
  "redis_errors (fst (RedisCache_GetAll w)) = redis_errors w"
  "redis_calls (fst (RedisCache_GetAll w)) = Suc (redis_calls w)"
  "clock (fst (RedisCache_GetAll w)) = clock w"
  "clock_reads (fst (RedisCache_GetAll w)) = clock_reads w"
  "uuids (fst (RedisCache_GetAll w)) = uuids w"
  "uuid_draws (fst (RedisCache_GetAll w)) = uuid_draws w"
  by (simp_all add: RedisCache_GetAll_def client_Get_def redis_call_def
      split: option.splits prod.splits reply.splits sum.splits)

lemma RedisCache_GetAll_result:
  "snd (RedisCache_GetAll w) =
     (case redis_errors w (redis_calls w) of
        Some e \<Rightarrow> ([], False, None)
      | None \<Rightarrow>
          (case redis w allAnnotationsKey of
             Some (AnnotationsJSON as, t) \<Rightarrow> (as, True, None)
           | _ \<Rightarrow> ([], False, None)))"
  by (simp add: RedisCache_GetAll_def client_Get_def redis_call_def
      split: option.splits prod.splits reply.splits sum.splits payload.splits)

lemma RedisCache_GetAll_no_error: "snd (snd (snd (RedisCache_GetAll w))) = None"
  by (simp add: RedisCache_GetAll_result split: option.splits prod.splits payload.splits)

lemma RedisCache_Set_frame [simp]:
  "annotations (fst (RedisCache_Set w a)) = annotations w"
  "pg_errors (fst (RedisCache_Set w a)) = pg_errors w"
  "pg_calls (fst (RedisCache_Set w a)) = pg_calls w"
  "redis_errors (fst (RedisCache_Set w a)) = redis_errors w"
  "clock (fst (RedisCache_Set w a)) = clock w"
  "clock_reads (fst (RedisCache_Set w a)) = clock_reads w"
  "uuids (fst (RedisCache_Set w a)) = uuids w"
  "uuid_draws (fst (RedisCache_Set w a)) = uuid_draws w"
  by (simp_all add: RedisCache_Set_def RedisCache_InvalidateAll_def Marshal_Annotation_def
      client_Set_def client_Del_def redis_call_def split: option.splits prod.splits)

lemma RedisCache_Set_redis:
  "redis (fst (RedisCache_Set w a)) =
     (if redis_errors w (redis_calls w) \<noteq> None then redis w
      else if redis_errors w (Suc (redis_calls w)) \<noteq> None
      then (redis w)(annotationKeyPrefix @ ID a \<mapsto> (AnnotationJSON a, defaultTTL))
      else (redis w)(annotationKeyPrefix @ ID a \<mapsto> (AnnotationJSON a, defaultTTL),
                     allAnnotationsKey := None))"
  by (simp add: RedisCache_Set_def RedisCache_InvalidateAll_def Marshal_Annotation_def
      client_Set_def client_Del_def redis_call_def split: option.splits prod.splits)


lemma RedisCache_SetAll_frame [simp]:
  "annotations (fst (RedisCache_SetAll w as)) = annotations w"
  "pg_errors (fst (RedisCache_SetAll w as)) = pg_errors w"
  "pg_calls (fst (RedisCache_SetAll w as)) = pg_calls w"
  "redis_errors (fst (RedisCache_SetAll w as)) = redis_errors w"
  "clock (fst (RedisCache_SetAll w as)) = clock w"
  "clock_reads (fst (RedisCache_SetAll w as)) = clock_reads w"
  "uuids (fst (RedisCache_SetAll w as)) = uuids w"
  "uuid_draws (fst (RedisCache_SetAll w as)) = uuid_draws w"
  by (simp_all add: RedisCache_SetAll_def Marshal_Annotations_def)


lemma RedisCache_Delete_frame [simp]:
  "annotations (fst (RedisCache_Delete w i)) = annotations w"
  "pg_errors (fst (RedisCache_Delete w i)) = pg_errors w"
  "pg_calls (fst (RedisCache_Delete w i)) = pg_calls w"
  "redis_errors (fst (RedisCache_Delete w i)) = redis_errors w"
  "clock (fst (RedisCache_Delete w i)) = clock w"
  "clock_reads (fst (RedisCache_Delete w i)) = clock_reads w"
  "uuids (fst (RedisCache_Delete w i)) = uuids w"
  "uuid_draws (fst (RedisCache_Delete w i)) = uuid_draws w"
  by (simp_all add: RedisCache_Delete_def RedisCache_InvalidateAll_def
      client_Del_def redis_call_def split: option.splits prod.splits)

lemma RedisCache_Delete_redis:
  "redis (fst (RedisCache_Delete w i)) =
     (if redis_errors w (redis_calls w) \<noteq> None then redis w
      else if redis_errors w (Suc (redis_calls w)) \<noteq> None
      then (redis w)(annotationKeyPrefix @ i := None)
      else (redis w)(annotationKeyPrefix @ i := None, allAnnotationsKey := None))"
  by (simp add: RedisCache_Delete_def RedisCache_InvalidateAll_def
      client_Del_def redis_call_def split: option.splits prod.splits)

lemma RedisCache_Get_degraded:
  "redis_errors w (redis_calls w) \<noteq> None \<Longrightarrow> snd (RedisCache_Get w i) = (None, None)"
  by (auto simp: RedisCache_Get_result)

lemma RedisCache_GetAll_degraded:
  "redis_errors w (redis_calls w) \<noteq> None \<Longrightarrow> snd (RedisCache_GetAll w) = ([], False, None)"
  by (auto simp: RedisCache_GetAll_result)

lemma RedisCache_Get_cold:
  "snd (RedisCache_Get (w\<lparr>redis := Map.empty, redis_errors := (\<lambda>n. None)\<rparr>) i) = (None, None)"
  by (simp add: RedisCache_Get_result)

lemma RedisCache_GetAll_cold:
  "snd (RedisCache_GetAll (w\<lparr>redis := Map.empty, redis_errors := (\<lambda>n. None)\<rparr>)) = ([], False, None)"
  by (simp add: RedisCache_GetAll_result)

subsection \<open>The store operations\<close>

lemma PostgresRepository_GetByID_frame [simp]:
  "annotations (fst (PostgresRepository_GetByID w i)) = annotations w"
  "redis (fst (PostgresRepository_GetByID w i)) = redis w"
  "pg_errors (fst (PostgresRepository_GetByID w i)) = pg_errors w"
  "pg_calls (fst (PostgresRepository_GetByID w i)) = Suc (pg_calls w)"
  "redis_errors (fst (PostgresRepository_GetByID w i)) = redis_errors w"
  "redis_calls (fst (PostgresRepository_GetByID w i)) = redis_calls w"
  "clock (fst (PostgresRepository_GetByID w i)) = clock w"
  "clock_reads (fst (PostgresRepository_GetByID w i)) = clock_reads w"
  "uuids (fst (PostgresRepository_GetByID w i)) = uuids w"
  "uuid_draws (fst (PostgresRepository_GetByID w i)) = uuid_draws w"
  by (simp_all add: PostgresRepository_GetByID_def pool_call_def split: option.splits)

lemma PostgresRepository_GetByID_result:
  "snd (PostgresRepository_GetByID w i) =
     (case pg_errors w (pg_calls w) of
        Some e \<Rightarrow> Inl (''failed to get annotation: '' @ e)
      | None \<Rightarrow> Inr (find (\<lambda>a. ID a = i) (annotations w)))"
  by (simp add: PostgresRepository_GetByID_def pool_call_def split: option.splits)

lemma PostgresRepository_GetAll_frame [simp]:
  "annotations (fst (PostgresRepository_GetAll w)) = annotations w"
  "redis (fst (PostgresRepository_GetAll w)) = redis w"
  "pg_errors (fst (PostgresRepository_GetAll w)) = pg_errors w"
  "redis_errors (fst (PostgresRepository_GetAll w)) = redis_errors w"
  "redis_calls (fst (PostgresRepository_GetAll w)) = redis_calls w"
  "clock (fst (PostgresRepository_GetAll w)) = clock w"
  "clock_reads (fst (PostgresRepository_GetAll w)) = clock_reads w"
  "uuids (fst (PostgresRepository_GetAll w)) = uuids w"
  "uuid_draws (fst (PostgresRepository_GetAll w)) = uuid_draws w"
  by (simp_all add: PostgresRepository_GetAll_def pool_call_def split: option.splits)

lemma PostgresRepository_GetAll_result:
  "snd (PostgresRepository_GetAll w) =
     (case pg_errors w (pg_calls w) of
        Some e \<Rightarrow> Inl (''failed to get annotations: '' @ e)
      | None \<Rightarrow>
          if annotations w = [] then Inr []
          else (case pg_errors w (Suc (pg_calls w)) of
                  Some e \<Rightarrow> Inl (''failed to scan annotation: '' @ e)
                | None \<Rightarrow> Inr (rev (sort_key CreatedAt (annotations w)))))"
  by (simp add: PostgresRepository_GetAll_def pool_call_def split: option.splits)


lemma PostgresRepository_Delete_frame [simp]:
  "redis (fst (PostgresRepository_Delete w i)) = redis w"
  "pg_errors (fst (PostgresRepository_Delete w i)) = pg_errors w"
  "pg_calls (fst (PostgresRepository_Delete w i)) = Suc (pg_calls w)"
  "redis_errors (fst (PostgresRepository_Delete w i)) = redis_errors w"
  "redis_calls (fst (PostgresRepository_Delete w i)) = redis_calls w"
  "clock (fst (PostgresRepository_Delete w i)) = clock w"
  "clock_reads (fst (PostgresRepository_Delete w i)) = clock_reads w"
  "uuids (fst (PostgresRepository_Delete w i)) = uuids w"
  "uuid_draws (fst (PostgresRepository_Delete w i)) = uuid_draws w"
  by (simp_all add: PostgresRepository_Delete_def pool_call_def Let_def split: option.splits)

lemma PostgresRepository_Delete_result:
  "snd (PostgresRepository_Delete w i) =
     (case pg_errors w (pg_calls w) of
        Some e \<Rightarrow> Some (''failed to delete annotation: '' @ e)
      | None \<Rightarrow> if list_ex (\<lambda>a. ID a = i) (annotations w) then None else Some ''annotation not found'')"
  "annotations (fst (PostgresRepository_Delete w i)) =
     (if pg_errors w (pg_calls w) = None then filter (\<lambda>a. ID a \<noteq> i) (annotations w)
      else annotations w)"
  by (auto simp add: PostgresRepository_Delete_def pool_call_def Let_def list_ex_iff filter_empty_conv
      split: option.splits)

lemma PostgresRepository_Create_frame [simp]:
  "redis (fst (PostgresRepository_Create w req)) = redis w"
  "pg_errors (fst (PostgresRepository_Create w req)) = pg_errors w"
  "pg_calls (fst (PostgresRepository_Create w req)) = Suc (pg_calls w)"
  "redis_errors (fst (PostgresRepository_Create w req)) = redis_errors w"
  "redis_calls (fst (PostgresRepository_Create w req)) = redis_calls w"
  "clock (fst (PostgresRepository_Create w req)) = clock w"
  "clock_reads (fst (PostgresRepository_Create w req)) = Suc (Suc (clock_reads w))"
  "uuids (fst (PostgresRepository_Create w req)) = uuids w"
  "uuid_draws (fst (PostgresRepository_Create w req)) = Suc (uuid_draws w)"
  by (simp_all add: PostgresRepository_Create_def env_defs Let_def split: option.splits)

lemma PostgresRepository_Create_result:
  "snd (PostgresRepository_Create w req) =
     (case pg_errors w (pg_calls w) of
        Some e \<Rightarrow> Inl (''failed to create annotation: '' @ e)
      | None \<Rightarrow>
          Inr \<lparr>ID = uuids w (uuid_draws w), X = req_X req, Y = req_Y req, Z = req_Z req,
               Title = req_Title req, Description = req_Description req,
               CreatedAt = clock w (clock_reads w), UpdatedAt = clock w (Suc (clock_reads w))\<rparr>)"
  "annotations (fst (PostgresRepository_Create w req)) =
     (case pg_errors w (pg_calls w) of
        Some e \<Rightarrow> annotations w
      | None \<Rightarrow>
          annotations w @
          [\<lparr>ID = uuids w (uuid_draws w), X = req_X req, Y = req_Y req, Z = req_Z req,
            Title = req_Title req, Description = req_Description req,
            CreatedAt = clock w (clock_reads w), UpdatedAt = clock w (Suc (clock_reads w))\<rparr>])"
  by (simp_all add: PostgresRepository_Create_def env_defs Let_def split: option.splits)

lemma PostgresRepository_Update_frame [simp]:
  "redis (fst (PostgresRepository_Update w i req)) = redis w"
  "pg_errors (fst (PostgresRepository_Update w i req)) = pg_errors w"
  "redis_errors (fst (PostgresRepository_Update w i req)) = redis_errors w"
  "redis_calls (fst (PostgresRepository_Update w i req)) = redis_calls w"
  "clock (fst (PostgresRepository_Update w i req)) = clock w"
  "uuids (fst (PostgresRepository_Update w i req)) = uuids w"
  "uuid_draws (fst (PostgresRepository_Update w i req)) = uuid_draws w"
  by (simp_all add: PostgresRepository_Update_def PostgresRepository_GetByID_def env_defs Let_def
      split: option.splits)

lemma PostgresRepository_Update_result:
  "snd (PostgresRepository_Update w i req) =
     (case pg_errors w (pg_calls w) of
        Some e \<Rightarrow> Inl (''failed to get annotation: '' @ e)
      | None \<Rightarrow>
          (case find (\<lambda>a. ID a = i) (annotations w) of
             None \<Rightarrow> Inr None
           | Some found \<Rightarrow>
               (case pg_errors w (Suc (pg_calls w)) of
                  Some e \<Rightarrow> Inl (''failed to update annotation: '' @ e)
                | None \<Rightarrow>
                    Inr (Some ((apply_updates found req)\<lparr>UpdatedAt := clock w (clock_reads w)\<rparr>)))))"
  by (simp add: PostgresRepository_Update_def PostgresRepository_GetByID_def env_defs Let_def
      split: option.splits)

lemma PostgresRepository_Update_rows:
  "annotations (fst (PostgresRepository_Update w i req)) =
     (case pg_errors w (pg_calls w) of
        Some e \<Rightarrow> annotations w
      | None \<Rightarrow>
          (case find (\<lambda>a. ID a = i) (annotations w) of
             None \<Rightarrow> annotations w
           | Some found \<Rightarrow>
               (case pg_errors w (Suc (pg_calls w)) of
                  Some e \<Rightarrow> annotations w
                | None \<Rightarrow>
                    sql_update ((apply_updates found req)\<lparr>UpdatedAt := clock w (clock_reads w)\<rparr>)
                      (annotations w))))"
  by (simp add: PostgresRepository_Update_def PostgresRepository_GetByID_def env_defs Let_def
      split: option.splits)

lemma apply_updates_ID [simp]: "ID (apply_updates a req) = ID a"
  by (simp add: apply_updates_def split: option.splits)

lemma apply_updates_CreatedAt [simp]: "CreatedAt (apply_updates a req) = CreatedAt a"
  by (simp add: apply_updates_def split: option.splits)




lemma find_ID: "find (\<lambda>a. ID a = i) rows = Some a \<Longrightarrow> ID a = i \<and> a \<in> set rows"
  by (auto simp: find_Some_iff)


lemma sql_update_ID [simp]: "map ID (sql_update e rows) = map ID rows"
  by (simp add: sql_update_def)



subsection \<open>The handlers\<close>

lemma Handler_Create_bind_error:
  "ShouldBindJSON_Create b = Inl e \<Longrightarrow>
   Handler_Create w b = (w, ErrorResponse StatusBadRequest ''invalid_request'')"
  by (simp add: Handler_Create_def)

lemma Handler_Create_long_title:
  "ShouldBindJSON_Create b = Inr req \<Longrightarrow> 256 < length (req_Title req) \<Longrightarrow>
   Handler_Create w b = (w, ErrorResponse StatusBadRequest ''invalid_request'')"
  by (simp add: Handler_Create_def)

lemma Handler_Create_bound:
  assumes "ShouldBindJSON_Create b = Inr req" and "length (req_Title req) \<le> 256"
  shows "snd (Handler_Create w b) =
           (case pg_errors w (pg_calls w) of
              Some e \<Rightarrow> ErrorResponse StatusInternalServerError ''internal_error''
            | None \<Rightarrow>
                AnnotationResponse StatusCreated
                  \<lparr>ID = uuids w (uuid_draws w), X = req_X req, Y = req_Y req, Z = req_Z req,
                   Title = req_Title req, Description = req_Description req,
                   CreatedAt = clock w (clock_reads w),
                   UpdatedAt = clock w (Suc (clock_reads w))\<rparr>)"
    and "annotations (fst (Handler_Create w b)) = annotations (fst (PostgresRepository_Create w req))"
  using assms
  by (simp_all add: Handler_Create_def split_beta PostgresRepository_Create_result
      split: option.splits)

lemma Handler_Create_response:
  "snd (Handler_Create w b) =
     (case ShouldBindJSON_Create b of
        Inl e \<Rightarrow> ErrorResponse StatusBadRequest ''invalid_request''
      | Inr req \<Rightarrow>
          if 256 < length (req_Title req) then ErrorResponse StatusBadRequest ''invalid_request''
          else (case pg_errors w (pg_calls w) of
                  Some e \<Rightarrow> ErrorResponse StatusInternalServerError ''internal_error''
                | None \<Rightarrow>
                    AnnotationResponse StatusCreated
                      \<lparr>ID = uuids w (uuid_draws w), X = req_X req, Y = req_Y req, Z = req_Z req,
                       Title = req_Title req, Description = req_Description req,
                       CreatedAt = clock w (clock_reads w),
                       UpdatedAt = clock w (Suc (clock_reads w))\<rparr>))"
  by (simp add: Handler_Create_def split_beta PostgresRepository_Create_result
      split: sum.splits option.splits)

lemma Handler_Create_rows:
  "annotations (fst (Handler_Create w b)) =
     (case ShouldBindJSON_Create b of
        Inl e \<Rightarrow> annotations w
      | Inr req \<Rightarrow>
          if 256 < length (req_Title req) then annotations w
          else annotations (fst (PostgresRepository_Create w req)))"
  by (simp add: Handler_Create_def split_beta PostgresRepository_Create_result
      split: sum.splits option.splits)

lemma Handler_Update_bind_error:
  "ShouldBindJSON_Update b = Inl e \<Longrightarrow>
   Handler_Update w i b = (w, ErrorResponse StatusBadRequest ''invalid_request'')"
  by (simp add: Handler_Update_def)

lemma Handler_Update_long_title:
  "ShouldBindJSON_Update b = Inr req \<Longrightarrow> upd_Title req = Some s \<Longrightarrow> 256 < length s \<Longrightarrow>
   Handler_Update w i b = (w, ErrorResponse StatusBadRequest ''invalid_request'')"
  by (simp add: Handler_Update_def)

lemma Handler_Update_bound:
  assumes "ShouldBindJSON_Update b = Inr req"
    and "\<And>s. upd_Title req = Some s \<Longrightarrow> length s \<le> 256"
  shows "snd (Handler_Update w i b) =
           (case snd (PostgresRepository_Update w i req) of
              Inl e \<Rightarrow> ErrorResponse StatusInternalServerError ''internal_error''
            | Inr None \<Rightarrow> ErrorResponse StatusNotFound ''not_found''
            | Inr (Some a) \<Rightarrow> AnnotationResponse StatusOK a)"
    and "fst (Handler_Update w i b) =
           (case snd (PostgresRepository_Update w i req) of
              Inr (Some a) \<Rightarrow> fst (RedisCache_Set (fst (PostgresRepository_Update w i req)) a)
            | _ \<Rightarrow> fst (PostgresRepository_Update w i req))"
proof -
  have guard: "\<not> (case upd_Title req of None \<Rightarrow> False | Some s \<Rightarrow> 256 < length s)"
    using assms(2) by (auto split: option.splits simp: not_less)
  show "snd (Handler_Update w i b) =
           (case snd (PostgresRepository_Update w i req) of
              Inl e \<Rightarrow> ErrorResponse StatusInternalServerError ''internal_error''
            | Inr None \<Rightarrow> ErrorResponse StatusNotFound ''not_found''
            | Inr (Some a) \<Rightarrow> AnnotationResponse StatusOK a)"
    using assms(1) guard
    by (simp add: Handler_Update_def split_beta split: sum.splits option.splits)
  show "fst (Handler_Update w i b) =
           (case snd (PostgresRepository_Update w i req) of
              Inr (Some a) \<Rightarrow> fst (RedisCache_Set (fst (PostgresRepository_Update w i req)) a)
            | _ \<Rightarrow> fst (PostgresRepository_Update w i req))"
    using assms(1) guard
    by (simp add: Handler_Update_def split_beta split: sum.splits option.splits)
qed

lemma Handler_Update_response:
  "snd (Handler_Update w i b) =
     (case ShouldBindJSON_Update b of
        Inl e \<Rightarrow> ErrorResponse StatusBadRequest ''invalid_request''
      | Inr req \<Rightarrow>
          if (case upd_Title req of None \<Rightarrow> False | Some s \<Rightarrow> 256 < length s)
          then ErrorResponse StatusBadRequest ''invalid_request''
          else (case snd (PostgresRepository_Update w i req) of
                  Inl e \<Rightarrow> ErrorResponse StatusInternalServerError ''internal_error''
                | Inr None \<Rightarrow> ErrorResponse StatusNotFound ''not_found''
                | Inr (Some a) \<Rightarrow> AnnotationResponse StatusOK a))"
  by (simp add: Handler_Update_def split_beta split: sum.splits option.splits)

lemma Handler_Update_rows:
  "annotations (fst (Handler_Update w i b)) =
     (case ShouldBindJSON_Update b of
        Inl e \<Rightarrow> annotations w
      | Inr req \<Rightarrow>
          if (case upd_Title req of None \<Rightarrow> False | Some s \<Rightarrow> 256 < length s)
          then annotations w
          else annotations (fst (PostgresRepository_Update w i req)))"
  by (simp add: Handler_Update_def split_beta split: sum.splits option.splits)


lemma Handler_GetByID_hit:
  "fst (snd (RedisCache_Get w i)) = Some a \<Longrightarrow>
   Handler_GetByID w i = (fst (RedisCache_Get w i), AnnotationResponse StatusOK a)"
  by (simp add: Handler_GetByID_def split_beta RedisCache_Get_no_error)

lemma Handler_GetByID_miss:
  "fst (snd (RedisCache_Get w i)) = None \<Longrightarrow>
   Handler_GetByID w i =
     (let w1 = fst (RedisCache_Get w i);
          w2 = fst (PostgresRepository_GetByID w1 i)
      in case snd (PostgresRepository_GetByID w1 i) of
           Inl e \<Rightarrow> (w2, ErrorResponse StatusInternalServerError ''internal_error'')
         | Inr None \<Rightarrow> (w2, ErrorResponse StatusNotFound ''not_found'')
         | Inr (Some a) \<Rightarrow> (fst (RedisCache_Set w2 a), AnnotationResponse StatusOK a))"
  by (simp add: Handler_GetByID_def split_beta Let_def split: sum.splits option.splits)

lemma Handler_GetByID_response:
  "snd (Handler_GetByID w i) =
     (case fst (snd (RedisCache_Get w i)) of
        Some a \<Rightarrow> AnnotationResponse StatusOK a
      | None \<Rightarrow>
          (case pg_errors w (pg_calls w) of
             Some e \<Rightarrow> ErrorResponse StatusInternalServerError ''internal_error''
           | None \<Rightarrow>
               (case find (\<lambda>a. ID a = i) (annotations w) of
                  None \<Rightarrow> ErrorResponse StatusNotFound ''not_found''
                | Some a \<Rightarrow> AnnotationResponse StatusOK a)))"
proof (cases "fst (snd (RedisCache_Get w i))")
  case None
  then show ?thesis
    by (simp add: Handler_GetByID_miss Let_def PostgresRepository_GetByID_result
        split: option.splits)
next
  case (Some a)
  then show ?thesis
    by (simp add: Handler_GetByID_hit)
qed

lemma Handler_GetByID_rows [simp]: "annotations (fst (Handler_GetByID w i)) = annotations w"
  by (cases "fst (snd (RedisCache_Get w i))")
     (simp_all add: Handler_GetByID_miss Handler_GetByID_hit Let_def split: sum.splits option.splits)

lemma Handler_GetAll_response:
  "snd (Handler_GetAll w) =
     (if fst (snd (snd (RedisCache_GetAll w)))
      then AnnotationsResponse StatusOK (fst (snd (RedisCache_GetAll w)))
      else (case snd (PostgresRepository_GetAll w) of
              Inl e \<Rightarrow> ErrorResponse StatusInternalServerError ''internal_error''
            | Inr stored \<Rightarrow> AnnotationsResponse StatusOK stored))"
  by (simp add: Handler_GetAll_def split_beta RedisCache_GetAll_no_error
      PostgresRepository_GetAll_result split: sum.splits option.splits)

lemma Handler_GetAll_rows [simp]: "annotations (fst (Handler_GetAll w)) = annotations w"
  by (simp add: Handler_GetAll_def split_beta split: sum.splits)

lemma Handler_Delete_result:
  "snd (Handler_Delete w i) =
     (case pg_errors w (pg_calls w) of
        Some e \<Rightarrow> ErrorResponse StatusInternalServerError ''internal_error''
      | None \<Rightarrow>
          if list_ex (\<lambda>a. ID a = i) (annotations w) then Status StatusNoContent
          else ErrorResponse StatusNotFound ''not_found'')"
  by (simp add: Handler_Delete_def split_beta PostgresRepository_Delete_result
      split: option.splits)

lemma Handler_Delete_world:
  "fst (Handler_Delete w i) =
     (case snd (PostgresRepository_Delete w i) of
        Some e \<Rightarrow> fst (PostgresRepository_Delete w i)
      | None \<Rightarrow> fst (RedisCache_Delete (fst (PostgresRepository_Delete w i)) i))"
  by (simp add: Handler_Delete_def split_beta split: option.splits)

lemma Handler_Delete_rows:
  "annotations (fst (Handler_Delete w i)) =
     (if pg_errors w (pg_calls w) = None then filter (\<lambda>a. ID a \<noteq> i) (annotations w)
      else annotations w)"
  by (simp add: Handler_Delete_world PostgresRepository_Delete_result split: option.splits)

subsection \<open>What the validation of Create and Update enforces\<close>

lemma Create_accepts_nonzero_coordinates:
  assumes "x \<noteq> 0" and "y \<noteq> 0" and "z \<noteq> 0"
    and "t \<noteq> []" and "length t \<le> 256" and "RuneCountInString d \<le> 256"
    and "pg_errors w (pg_calls w) = None"
  shows "status_of (snd (Handler_Create w
           (Object \<lparr>json_x = Some x, json_y = Some y, json_z = Some z,
                    json_title = Some t, json_description = Some d\<rparr>))) = StatusCreated"
proof -
  let ?j = "\<lparr>json_x = Some x, json_y = Some y, json_z = Some z,
             json_title = Some t, json_description = Some d\<rparr>"
  have "RuneCountInString t \<le> 256"
    using RuneCountInString_le_length [of t] assms(5) by simp
  with assms have bound: "ShouldBindJSON_Create (Object ?j) = Inr (decode_Create ?j)"
    by (simp add: ShouldBindJSON_Create_Inr decode_Create_def)
  have short: "length (req_Title (decode_Create ?j)) \<le> 256"
    using assms(5) by (simp add: decode_Create_def)
  show ?thesis
    using assms(7) by (simp add: Handler_Create_bound(1) [OF bound short])
qed

lemma long_title_rejected:
  assumes "256 < length t"
  shows "json_title j = Some t \<Longrightarrow>
           Handler_Create w (Object j) = (w, ErrorResponse StatusBadRequest ''invalid_request'')"
    and "upd_Title u = Some t \<Longrightarrow>
           Handler_Update w i (Object u) = (w, ErrorResponse StatusBadRequest ''invalid_request'')"
proof -
  assume title: "json_title j = Some t"
  show "Handler_Create w (Object j) = (w, ErrorResponse StatusBadRequest ''invalid_request'')"
  proof (cases "ShouldBindJSON_Create (Object j)")
    case (Inl e)
    then show ?thesis by (rule Handler_Create_bind_error)
  next
    case (Inr req)
    then have "req_Title req = t"
      using title by (auto simp: ShouldBindJSON_Create_Inr decode_Create_def)
    with assms Inr show ?thesis by (simp add: Handler_Create_long_title)
  qed
next
  assume title: "upd_Title u = Some t"
  show "Handler_Update w i (Object u) = (w, ErrorResponse StatusBadRequest ''invalid_request'')"
  proof (cases "ShouldBindJSON_Update (Object u)")
    case (Inl e)
    then show ?thesis by (rule Handler_Update_bind_error)
  next
    case (Inr req)
    then have "req = u"
      by (simp add: ShouldBindJSON_Update_Inr)
    with assms Inr title show ?thesis by (simp add: Handler_Update_long_title)
  qed
qed

lemma many_runes_rejected:
  assumes "256 < RuneCountInString d"
  shows "json_description j = Some d \<Longrightarrow>
           Handler_Create w (Object j) = (w, ErrorResponse StatusBadRequest ''invalid_request'')"
    and "upd_Description u = Some d \<Longrightarrow>
           Handler_Update w i (Object u) = (w, ErrorResponse StatusBadRequest ''invalid_request'')"
proof -
  assume "json_description j = Some d"
  with assms have "\<exists>e. ShouldBindJSON_Create (Object j) = Inl e"
    by (cases "ShouldBindJSON_Create (Object j)")
       (auto simp: ShouldBindJSON_Create_Inr decode_Create_def)
  then show "Handler_Create w (Object j) = (w, ErrorResponse StatusBadRequest ''invalid_request'')"
    by (auto simp: Handler_Create_bind_error)
next
  assume "upd_Description u = Some d"
  with assms have "\<exists>e. ShouldBindJSON_Update (Object u) = Inl e"
    by (cases "ShouldBindJSON_Update (Object u)") (auto simp: ShouldBindJSON_Update_Inr)
  then show "Handler_Update w i (Object u) = (w, ErrorResponse StatusBadRequest ''invalid_request'')"
    by (auto simp: Handler_Update_bind_error)
qed

subsection \<open>A cache that fails\<close>

lemma degraded_like_cold:
  assumes "\<forall>n. redis_errors w n \<noteq> None"
  defines "cold \<equiv> w\<lparr>redis := Map.empty, redis_errors := (\<lambda>n. None)\<rparr>"
  shows "snd (Handler_Create w c) = snd (Handler_Create cold c)"
    and "snd (Handler_GetAll w) = snd (Handler_GetAll cold)"
    and "snd (Handler_GetByID w i) = snd (Handler_GetByID cold i)"
    and "snd (Handler_Update w i u) = snd (Handler_Update cold i u)"
    and "snd (Handler_Delete w i) = snd (Handler_Delete cold i)"
    and "annotations (fst (Handler_Create w c)) = annotations (fst (Handler_Create cold c))"
    and "annotations (fst (Handler_Update w i u)) = annotations (fst (Handler_Update cold i u))"
    and "annotations (fst (Handler_Delete w i)) = annotations (fst (Handler_Delete cold i))"
proof -
  from assms(1) have failing: "redis_errors w (redis_calls w) \<noteq> None"
    by simp
  show "snd (Handler_Create w c) = snd (Handler_Create cold c)"
    by (simp add: Handler_Create_response cold_def
        split: sum.splits option.splits)
  show "snd (Handler_GetAll w) = snd (Handler_GetAll cold)"
    by (simp add: Handler_GetAll_response RedisCache_GetAll_degraded [OF failing]
        RedisCache_GetAll_cold PostgresRepository_GetAll_result cold_def
        split: sum.splits option.splits)
  show "snd (Handler_GetByID w i) = snd (Handler_GetByID cold i)"
    by (simp add: Handler_GetByID_response RedisCache_Get_degraded [OF failing]
        RedisCache_Get_cold cold_def
        split: sum.splits option.splits)
  show "snd (Handler_Update w i u) = snd (Handler_Update cold i u)"
    by (simp add: Handler_Update_response PostgresRepository_Update_result cold_def
        split: sum.splits option.splits)
  show "snd (Handler_Delete w i) = snd (Handler_Delete cold i)"
    by (simp add: Handler_Delete_result cold_def
        split: sum.splits option.splits)
  show "annotations (fst (Handler_Create w c)) = annotations (fst (Handler_Create cold c))"
    by (simp add: Handler_Create_rows PostgresRepository_Create_result cold_def
        split: sum.splits option.splits)
  show "annotations (fst (Handler_Update w i u)) = annotations (fst (Handler_Update cold i u))"
    by (simp add: Handler_Update_rows PostgresRepository_Update_rows cold_def
        split: sum.splits option.splits)
  show "annotations (fst (Handler_Delete w i)) = annotations (fst (Handler_Delete cold i))"
    by (simp add: Handler_Delete_rows cold_def
        split: sum.splits option.splits)
qed

lemma mutations_ignore_the_cache:
  "snd (Handler_Create (w\<lparr>redis := kv, redis_errors := f, redis_calls := k\<rparr>) c) =
     snd (Handler_Create w c)"
  "snd (Handler_Update (w\<lparr>redis := kv, redis_errors := f, redis_calls := k\<rparr>) i u) =
     snd (Handler_Update w i u)"
  "snd (Handler_Delete (w\<lparr>redis := kv, redis_errors := f, redis_calls := k\<rparr>) i) =
     snd (Handler_Delete w i)"
  by (simp_all add: Handler_Create_response Handler_Update_response Handler_Delete_result
      PostgresRepository_Update_result split: sum.splits option.splits)

lemma internal_error_from_Store:
  "status_of (snd (Handler_Create w c)) = StatusInternalServerError \<Longrightarrow>
     pg_errors w (pg_calls w) \<noteq> None"
  "status_of (snd (Handler_GetAll w)) = StatusInternalServerError \<Longrightarrow>
     pg_errors w (pg_calls w) \<noteq> None \<or> pg_errors w (Suc (pg_calls w)) \<noteq> None"
  "status_of (snd (Handler_GetByID w i)) = StatusInternalServerError \<Longrightarrow>
     pg_errors w (pg_calls w) \<noteq> None"
  "status_of (snd (Handler_Update w i u)) = StatusInternalServerError \<Longrightarrow>
     pg_errors w (pg_calls w) \<noteq> None \<or> pg_errors w (Suc (pg_calls w)) \<noteq> None"
  "status_of (snd (Handler_Delete w i)) = StatusInternalServerError \<Longrightarrow>
     pg_errors w (pg_calls w) \<noteq> None"
  by (auto simp: Handler_Create_response Handler_GetAll_response Handler_GetByID_response
      Handler_Update_response Handler_Delete_result PostgresRepository_GetAll_result
      PostgresRepository_Update_result http_status_defs
      split: sum.splits option.splits if_splits)

subsection \<open>The proxy\<close>




lemma proxy_response_body_error:
  "Gateway_proxyToHandler g n req = (r, [p]) \<Longrightarrow> Do n p = Inr resp \<Longrightarrow> resp_Body resp = Inl e \<Longrightarrow>
   r = JSON StatusInternalServerError ''internal_error''"
  by (auto simp: Gateway_proxyToHandler_def Let_def split: sum.splits option.splits if_splits)



subsection \<open>The list after an Update\<close>








lemma pg_errors_GetAll [simp]: "pg_errors (fst (Handler_GetAll w)) = pg_errors w"
  by (simp add: Handler_GetAll_def split_beta split: sum.splits)

lemma pg_errors_GetByID [simp]: "pg_errors (fst (Handler_GetByID w i)) = pg_errors w"
  by (cases "fst (snd (RedisCache_Get w i))")
     (simp_all add: Handler_GetByID_miss Handler_GetByID_hit Let_def split: sum.splits option.splits)

lemma pg_errors_reads [simp]: "pg_errors (run_reads w rs) = pg_errors w"
proof (induction rs arbitrary: w)
  case Nil
  show ?case by simp
next
  case (Cons r rs)
  show ?case by (cases r) (simp_all add: Cons.IH)
qed



section \<open>The claims\<close>




text \<open>
  C2 (the record returned by Create has \<open>created_at\<close> equal to \<open>updated_at\<close>).
  \<open>PostgresRepository.Create\<close> reads the clock twice, once for each field. For the request
  \<open>{"x":1.5,"y":2.5,"z":3.5,"title":"POI"}\<close> in a world whose clock advances by 83 ns
  between the two readings, the record in the 201 response carries two different
  timestamps.
\<close>

theorem Create_reads_the_clock_twice:
  "snd (Handler_Create (quiet [] Map.empty) (Object poi_json)) =
     AnnotationResponse StatusCreated
       \<lparr>ID = ''6ba7b810-9dad-11d1-80b4-00c04fd430c8'', X = 1.5, Y = 2.5, Z = 3.5,
        Title = ''POI'', Description = [],
        CreatedAt = 1700000000000000000, UpdatedAt = 1700000000000000083\<rparr>"
proof -
  have bound: "ShouldBindJSON_Create (Object poi_json) = Inr (decode_Create poi_json)"
    by (simp add: ShouldBindJSON_Create_Inr decode_Create_def poi_json_def RuneSelf_def)
  have short: "length (req_Title (decode_Create poi_json)) \<le> 256"
    by (simp add: decode_Create_def poi_json_def)
  show ?thesis
    by (simp add: Handler_Create_bound(1)[OF bound short])
       (simp add: quiet_def decode_Create_def poi_json_def)
qed

text \<open>
  C3 (Create never rejects a request on account of its coordinate values; in particular
  the coordinate 0.0 is accepted). The tag \<open>binding:"required"\<close> on the \<open>float64\<close> fields
  fails on the zero value: the request \<open>{"x":0.0,"y":2.5,"z":3.5,"title":"POI"}\<close> is answered
  400 \<open>invalid_request\<close> in every world, and nothing is written; with \<open>x = 1.5\<close> and all
  else equal it is created.
\<close>

theorem Create_rejects_zero_coordinate:
  "Handler_Create w (Object (poi_json\<lparr>json_x := Some 0\<rparr>)) =
     (w, ErrorResponse StatusBadRequest ''invalid_request'') \<and>
   status_of (snd (Handler_Create (quiet [] Map.empty) (Object poi_json))) = StatusCreated"
proof -
  have "ShouldBindJSON_Create (Object (poi_json\<lparr>json_x := Some 0\<rparr>)) =
          Inl (ValidationErrors [(''X'', ''required'')])"
    by (simp add: ShouldBindJSON_Create_def validate_Create_def decode_Create_def poi_json_def
        RuneSelf_def)
  then have rejected: "Handler_Create w (Object (poi_json\<lparr>json_x := Some 0\<rparr>)) =
     (w, ErrorResponse StatusBadRequest ''invalid_request'')"
    by (rule Handler_Create_bind_error)
  have bound: "ShouldBindJSON_Create (Object poi_json) = Inr (decode_Create poi_json)"
    by (simp add: ShouldBindJSON_Create_Inr decode_Create_def poi_json_def RuneSelf_def)
  have short: "length (req_Title (decode_Create poi_json)) \<le> 256"
    by (simp add: decode_Create_def poi_json_def)
  have "status_of (snd (Handler_Create (quiet [] Map.empty) (Object poi_json))) = StatusCreated"
    by (simp add: Handler_Create_bound(1)[OF bound short]) (simp add: quiet_def)
  with rejected show ?thesis by simp
qed



text \<open>
  C5 (the cache's get never returns an error; a failing cache behaves like an always-miss
  cache; no CRUD request fails because of a cache failure; errors of set, setAll and
  delete are swallowed). In every world the error component of \<open>Get\<close> and of \<open>GetAll\<close>
  is nil, and a Redis error makes both answer a miss. When every Redis command fails,
  each of the five handlers gives the response, and leaves the table, that it gives with
  an empty cache that works. The responses of Create, Update and Delete do not depend on
  the keyspace or on the outcome of any Redis command. In every world, whatever Redis
  holds and whichever of its commands fail, a response 500 means that the driver returned
  an error for a statement of that request.
\<close>

theorem cache_failures_are_absorbed:
  "snd (snd (RedisCache_Get w i)) = None \<and>
   snd (snd (snd (RedisCache_GetAll w))) = None \<and>
   (redis_errors w (redis_calls w) \<noteq> None \<longrightarrow>
      snd (RedisCache_Get w i) = (None, None) \<and> snd (RedisCache_GetAll w) = ([], False, None)) \<and>
   ((\<forall>n. redis_errors w n \<noteq> None) \<longrightarrow>
      snd (Handler_Create w c) =
        snd (Handler_Create (w\<lparr>redis := Map.empty, redis_errors := (\<lambda>n. None)\<rparr>) c) \<and>
      snd (Handler_GetAll w) =
        snd (Handler_GetAll (w\<lparr>redis := Map.empty, redis_errors := (\<lambda>n. None)\<rparr>)) \<and>
      snd (Handler_GetByID w i) =
        snd (Handler_GetByID (w\<lparr>redis := Map.empty, redis_errors := (\<lambda>n. None)\<rparr>) i) \<and>
      snd (Handler_Update w i u) =
        snd (Handler_Update (w\<lparr>redis := Map.empty, redis_errors := (\<lambda>n. None)\<rparr>) i u) \<and>
      snd (Handler_Delete w i) =
        snd (Handler_Delete (w\<lparr>redis := Map.empty, redis_errors := (\<lambda>n. None)\<rparr>) i) \<and>
      annotations (fst (Handler_Create w c)) =
        annotations (fst (Handler_Create (w\<lparr>redis := Map.empty, redis_errors := (\<lambda>n. None)\<rparr>) c)) \<and>
      annotations (fst (Handler_Update w i u)) =
        annotations (fst (Handler_Update (w\<lparr>redis := Map.empty, redis_errors := (\<lambda>n. None)\<rparr>) i u)) \<and>
      annotations (fst (Handler_Delete w i)) =
        annotations (fst (Handler_Delete (w\<lparr>redis := Map.empty, redis_errors := (\<lambda>n. None)\<rparr>) i))) \<and>
   snd (Handler_Create (w\<lparr>redis := kv, redis_errors := f, redis_calls := k\<rparr>) c) =
     snd (Handler_Create w c) \<and>
   snd (Handler_Update (w\<lparr>redis := kv, redis_errors := f, redis_calls := k\<rparr>) i u) =
     snd (Handler_Update w i u) \<and>
   snd (Handler_Delete (w\<lparr>redis := kv, redis_errors := f, redis_calls := k\<rparr>) i) =
     snd (Handler_Delete w i) \<and>
   (status_of (snd (Handler_Create w c)) = StatusInternalServerError \<longrightarrow>
      pg_errors w (pg_calls w) \<noteq> None) \<and>
   (status_of (snd (Handler_GetAll w)) = StatusInternalServerError \<longrightarrow>
      pg_errors w (pg_calls w) \<noteq> None \<or> pg_errors w (Suc (pg_calls w)) \<noteq> None) \<and>
   (status_of (snd (Handler_GetByID w i)) = StatusInternalServerError \<longrightarrow>
      pg_errors w (pg_calls w) \<noteq> None) \<and>
   (status_of (snd (Handler_Update w i u)) = StatusInternalServerError \<longrightarrow>
      pg_errors w (pg_calls w) \<noteq> None \<or> pg_errors w (Suc (pg_calls w)) \<noteq> None) \<and>
   (status_of (snd (Handler_Delete w i)) = StatusInternalServerError \<longrightarrow>
      pg_errors w (pg_calls w) \<noteq> None)"
proof (intro conjI impI)
  show "snd (snd (RedisCache_Get w i)) = None"
    by (rule RedisCache_Get_no_error)
  show "snd (snd (snd (RedisCache_GetAll w))) = None"
    by (rule RedisCache_GetAll_no_error)
next
  assume "redis_errors w (redis_calls w) \<noteq> None"
  then show "snd (RedisCache_Get w i) = (None, None)"
    and "snd (RedisCache_GetAll w) = ([], False, None)"
    by (rule RedisCache_Get_degraded, rule RedisCache_GetAll_degraded)
next
  assume down: "\<forall>n. redis_errors w n \<noteq> None"
  show "snd (Handler_Create w c) =
        snd (Handler_Create (w\<lparr>redis := Map.empty, redis_errors := (\<lambda>n. None)\<rparr>) c)"
    by (rule degraded_like_cold(1) [OF down])
  show "snd (Handler_GetAll w) =
        snd (Handler_GetAll (w\<lparr>redis := Map.empty, redis_errors := (\<lambda>n. None)\<rparr>))"
    by (rule degraded_like_cold(2) [OF down])
  show "snd (Handler_GetByID w i) =
        snd (Handler_GetByID (w\<lparr>redis := Map.empty, redis_errors := (\<lambda>n. None)\<rparr>) i)"
    by (rule degraded_like_cold(3) [OF down])
  show "snd (Handler_Update w i u) =
        snd (Handler_Update (w\<lparr>redis := Map.empty, redis_errors := (\<lambda>n. None)\<rparr>) i u)"
    by (rule degraded_like_cold(4) [OF down])
  show "snd (Handler_Delete w i) =
        snd (Handler_Delete (w\<lparr>redis := Map.empty, redis_errors := (\<lambda>n. None)\<rparr>) i)"
    by (rule degraded_like_cold(5) [OF down])
  show "annotations (fst (Handler_Create w c)) =
        annotations (fst (Handler_Create (w\<lparr>redis := Map.empty, redis_errors := (\<lambda>n. None)\<rparr>) c))"
    by (rule degraded_like_cold(6) [OF down])
  show "annotations (fst (Handler_Update w i u)) =
        annotations (fst (Handler_Update (w\<lparr>redis := Map.empty, redis_errors := (\<lambda>n. None)\<rparr>) i u))"
    by (rule degraded_like_cold(7) [OF down])
  show "annotations (fst (Handler_Delete w i)) =
        annotations (fst (Handler_Delete (w\<lparr>redis := Map.empty, redis_errors := (\<lambda>n. None)\<rparr>) i))"
    by (rule degraded_like_cold(8) [OF down])
next
  show "snd (Handler_Create (w\<lparr>redis := kv, redis_errors := f, redis_calls := k\<rparr>) c) =
     snd (Handler_Create w c)"
    by (rule mutations_ignore_the_cache(1))
  show "snd (Handler_Update (w\<lparr>redis := kv, redis_errors := f, redis_calls := k\<rparr>) i u) =
     snd (Handler_Update w i u)"
    by (rule mutations_ignore_the_cache(2))
  show "snd (Handler_Delete (w\<lparr>redis := kv, redis_errors := f, redis_calls := k\<rparr>) i) =
     snd (Handler_Delete w i)"
    by (rule mutations_ignore_the_cache(3))
next
  assume "status_of (snd (Handler_Create w c)) = StatusInternalServerError"
  then show "pg_errors w (pg_calls w) \<noteq> None"
    by (rule internal_error_from_Store(1))
next
  assume "status_of (snd (Handler_GetAll w)) = StatusInternalServerError"
  then show "pg_errors w (pg_calls w) \<noteq> None \<or> pg_errors w (Suc (pg_calls w)) \<noteq> None"
    by (rule internal_error_from_Store(2))
next
  assume "status_of (snd (Handler_GetByID w i)) = StatusInternalServerError"
  then show "pg_errors w (pg_calls w) \<noteq> None"
    by (rule internal_error_from_Store(3))
next
  assume "status_of (snd (Handler_Update w i u)) = StatusInternalServerError"
  then show "pg_errors w (pg_calls w) \<noteq> None \<or> pg_errors w (Suc (pg_calls w)) \<noteq> None"
    by (rule internal_error_from_Store(4))
next
  assume "status_of (snd (Handler_Delete w i)) = StatusInternalServerError"
  then show "pg_errors w (pg_calls w) \<noteq> None"
    by (rule internal_error_from_Store(5))
qed

theorem cache_failures_are_absorbed_witness:
  "snd (RedisCache_Get (redis_down (quiet [poi] warm)) (ID poi)) = (None, None) \<and>
   snd (Handler_GetByID (redis_down (quiet [poi] warm)) (ID poi)) = AnnotationResponse StatusOK poi \<and>
   snd (Handler_GetAll (redis_down (quiet [poi] warm))) = AnnotationsResponse StatusOK [poi] \<and>
   status_of (snd (Handler_Create (redis_down (quiet [poi] warm)) (Object poi_json))) = StatusCreated \<and>
   status_of (snd (Handler_Update (redis_down (quiet [poi] warm)) (ID poi) (Object no_update))) = StatusOK \<and>
   snd (Handler_Delete (redis_down (quiet [poi] warm)) (ID poi)) = Status StatusNoContent"
proof -
  let ?w = "redis_down (quiet [poi] warm)"
  have down: "\<forall>n. redis_errors ?w n \<noteq> None"
    by (simp add: redis_down_def)
  have fields: "annotations ?w = [poi]" "pg_errors ?w = (\<lambda>n. None)" "pg_calls ?w = 0"
    by (simp_all add: redis_down_def quiet_def)
  note absorbed = cache_failures_are_absorbed [of ?w "ID poi" "Object poi_json" "Object no_update"]
  have get: "snd (RedisCache_Get ?w (ID poi)) = (None, None)"
    using absorbed [THEN conjunct2, THEN conjunct2, THEN conjunct1] down by simp
  have by_id: "snd (Handler_GetByID ?w (ID poi)) = AnnotationResponse StatusOK poi"
    by (simp add: Handler_GetByID_response get fields)
  have all: "snd (Handler_GetAll ?w) = AnnotationsResponse StatusOK [poi]"
    using down
    by (simp add: Handler_GetAll_response RedisCache_GetAll_degraded
        PostgresRepository_GetAll_result fields)
  have bound: "ShouldBindJSON_Create (Object poi_json) = Inr (decode_Create poi_json)"
    by (simp add: ShouldBindJSON_Create_Inr decode_Create_def poi_json_def RuneSelf_def)
  have create: "status_of (snd (Handler_Create ?w (Object poi_json))) = StatusCreated"
    by (simp add: Handler_Create_response bound fields) (simp add: decode_Create_def poi_json_def)
  have ubound: "ShouldBindJSON_Update (Object no_update) = Inr no_update"
    by (simp add: ShouldBindJSON_Update_Inr no_update_def)
  have update: "status_of (snd (Handler_Update ?w (ID poi) (Object no_update))) = StatusOK"
    by (simp add: Handler_Update_response ubound PostgresRepository_Update_result fields)
       (simp add: no_update_def)
  have delete: "snd (Handler_Delete ?w (ID poi)) = Status StatusNoContent"
    by (simp add: Handler_Delete_result fields)
  from get by_id all create update delete show ?thesis by (intro conjI)
qed





text \<open>
  C8 (any title or description of more than 256 bytes is rejected by Create and by Update
  before the Store is touched). The byte length is checked for the title only; the
  description is bounded by the tag \<open>max=256\<close>, which counts runes. A description of one
  hundred euro signs has 300 bytes and 100 runes: Create stores it and answers 201, and
  Update stores it and answers 200.
\<close>

theorem long_description_is_stored:
  "length euros = 300 \<and>
   snd (Handler_Create (quiet [] Map.empty) (Object (poi_json\<lparr>json_description := Some euros\<rparr>))) =
     AnnotationResponse StatusCreated
       \<lparr>ID = ''6ba7b810-9dad-11d1-80b4-00c04fd430c8'', X = 1.5, Y = 2.5, Z = 3.5,
        Title = ''POI'', Description = euros,
        CreatedAt = 1700000000000000000, UpdatedAt = 1700000000000000083\<rparr> \<and>
   annotations (fst (Handler_Create (quiet [] Map.empty)
                       (Object (poi_json\<lparr>json_description := Some euros\<rparr>)))) =
     [\<lparr>ID = ''6ba7b810-9dad-11d1-80b4-00c04fd430c8'', X = 1.5, Y = 2.5, Z = 3.5,
       Title = ''POI'', Description = euros,
       CreatedAt = 1700000000000000000, UpdatedAt = 1700000000000000083\<rparr>] \<and>
   snd (Handler_Update (quiet [poi] Map.empty) (ID poi)
          (Object (no_update\<lparr>upd_Description := Some euros\<rparr>))) =
     AnnotationResponse StatusOK (poi\<lparr>Description := euros, UpdatedAt := 1700000000000000000\<rparr>) \<and>
   annotations (fst (Handler_Update (quiet [poi] Map.empty) (ID poi)
                       (Object (no_update\<lparr>upd_Description := Some euros\<rparr>)))) =
     [poi\<lparr>Description := euros, UpdatedAt := 1700000000000000000\<rparr>]"
proof -
  let ?j = "poi_json\<lparr>json_description := Some euros\<rparr>"
  let ?u = "no_update\<lparr>upd_Description := Some euros\<rparr>"
  have bound: "ShouldBindJSON_Create (Object ?j) = Inr (decode_Create ?j)"
    by (simp add: ShouldBindJSON_Create_Inr decode_Create_def poi_json_def RuneSelf_def
        RuneCountInString_euros)
  have short: "length (req_Title (decode_Create ?j)) \<le> 256"
    by (simp add: decode_Create_def poi_json_def)
  have created: "snd (Handler_Create (quiet [] Map.empty) (Object ?j)) =
     AnnotationResponse StatusCreated
       \<lparr>ID = ''6ba7b810-9dad-11d1-80b4-00c04fd430c8'', X = 1.5, Y = 2.5, Z = 3.5,
        Title = ''POI'', Description = euros,
        CreatedAt = 1700000000000000000, UpdatedAt = 1700000000000000083\<rparr>"
    by (simp add: Handler_Create_bound(1)[OF bound short])
       (simp add: quiet_def decode_Create_def poi_json_def)
  have inserted: "annotations (fst (Handler_Create (quiet [] Map.empty) (Object ?j))) =
     [\<lparr>ID = ''6ba7b810-9dad-11d1-80b4-00c04fd430c8'', X = 1.5, Y = 2.5, Z = 3.5,
       Title = ''POI'', Description = euros,
       CreatedAt = 1700000000000000000, UpdatedAt = 1700000000000000083\<rparr>]"
    by (simp add: Handler_Create_bound(2)[OF bound short] PostgresRepository_Create_result)
       (simp add: quiet_def decode_Create_def poi_json_def)
  have ubound: "ShouldBindJSON_Update (Object ?u) = Inr ?u"
    by (simp add: ShouldBindJSON_Update_Inr no_update_def RuneCountInString_euros)
  have utitle: "\<And>s. upd_Title ?u = Some s \<Longrightarrow> length s \<le> 256"
    by (simp add: no_update_def)
  have merged: "apply_updates poi ?u = poi\<lparr>Description := euros\<rparr>"
    by (simp add: apply_updates_def no_update_def)
  have result: "snd (PostgresRepository_Update (quiet [poi] Map.empty) (ID poi) ?u) =
     Inr (Some (poi\<lparr>Description := euros, UpdatedAt := 1700000000000000000\<rparr>))"
    by (simp add: PostgresRepository_Update_result quiet_def merged)
  have rows: "annotations (fst (PostgresRepository_Update (quiet [poi] Map.empty) (ID poi) ?u)) =
     [poi\<lparr>Description := euros, UpdatedAt := 1700000000000000000\<rparr>]"
    by (simp add: PostgresRepository_Update_rows quiet_def merged sql_update_def)
  have updated: "snd (Handler_Update (quiet [poi] Map.empty) (ID poi) (Object ?u)) =
     AnnotationResponse StatusOK (poi\<lparr>Description := euros, UpdatedAt := 1700000000000000000\<rparr>)"
    by (simp add: Handler_Update_bound(1)[OF ubound utitle] result)
  have persisted: "annotations (fst (Handler_Update (quiet [poi] Map.empty) (ID poi) (Object ?u))) =
     [poi\<lparr>Description := euros, UpdatedAt := 1700000000000000000\<rparr>]"
    by (simp add: Handler_Update_bound(2)[OF ubound utitle] result rows)
  from length_euros created inserted updated persisted show ?thesis by simp
qed

text \<open>
  C9 (a GetByID served from the Store repopulates the per-id cache entry through the
  cache's set operation, and that operation drops the aggregate entry). On a cache miss
  with a Store hit the handler ends in the world \<open>RedisCache_Set\<close> leaves: when Redis
  executes its \<open>SET\<close> the entry of the id holds the record, and when Redis also
  executes the \<open>DEL\<close> that follows, the key \<open>annotations:all\<close> is gone, whatever it
  held before. The table is untouched.
\<close>

theorem GetByID_from_store_drops_aggregate:
  assumes miss: "fst (snd (RedisCache_Get w i)) = None"
    and executes: "pg_errors w (pg_calls w) = None"
    and stored: "find (\<lambda>a. ID a = i) (annotations w) = Some a"
  shows "Handler_GetByID w i =
           (fst (RedisCache_Set (fst (PostgresRepository_GetByID (fst (RedisCache_Get w i)) i)) a),
            AnnotationResponse StatusOK a) \<and>
         annotations (fst (Handler_GetByID w i)) = annotations w \<and>
         (redis_errors w (Suc (redis_calls w)) = None \<longrightarrow>
            redis (fst (Handler_GetByID w i)) (annotationKeyPrefix @ i) =
              Some (AnnotationJSON a, defaultTTL)) \<and>
         (redis_errors w (Suc (redis_calls w)) = None \<and>
          redis_errors w (Suc (Suc (redis_calls w))) = None \<longrightarrow>
            redis (fst (Handler_GetByID w i)) allAnnotationsKey = None)"
proof -
  let ?w1 = "fst (RedisCache_Get w i)"
  let ?w2 = "fst (PostgresRepository_GetByID ?w1 i)"
  have hit: "snd (PostgresRepository_GetByID ?w1 i) = Inr (Some a)"
    using executes stored by (simp add: PostgresRepository_GetByID_result)
  have run: "Handler_GetByID w i = (fst (RedisCache_Set ?w2 a), AnnotationResponse StatusOK a)"
    by (simp add: Handler_GetByID_miss [OF miss] Let_def hit)
  have key: "ID a = i"
    by (rule find_ID [OF stored, THEN conjunct1])
  have kv: "redis (fst (Handler_GetByID w i)) =
     (if redis_errors w (Suc (redis_calls w)) \<noteq> None then redis w
      else if redis_errors w (Suc (Suc (redis_calls w))) \<noteq> None
      then (redis w)(annotationKeyPrefix @ i \<mapsto> (AnnotationJSON a, defaultTTL))
      else (redis w)(annotationKeyPrefix @ i \<mapsto> (AnnotationJSON a, defaultTTL),
                     allAnnotationsKey := None))"
    by (simp add: run RedisCache_Set_redis key)
  show ?thesis
  proof (intro conjI impI)
    show "Handler_GetByID w i = (fst (RedisCache_Set ?w2 a), AnnotationResponse StatusOK a)"
      by (rule run)
    show "annotations (fst (Handler_GetByID w i)) = annotations w"
      by (simp add: run)
  next
    assume "redis_errors w (Suc (redis_calls w)) = None"
    then show "redis (fst (Handler_GetByID w i)) (annotationKeyPrefix @ i) =
                 Some (AnnotationJSON a, defaultTTL)"
      by (simp add: kv)
  next
    assume "redis_errors w (Suc (redis_calls w)) = None \<and>
            redis_errors w (Suc (Suc (redis_calls w))) = None"
    then show "redis (fst (Handler_GetByID w i)) allAnnotationsKey = None"
      by (simp add: kv)
  qed
qed

theorem GetByID_from_store_drops_aggregate_witness:
  "redis (quiet [poi] [allAnnotationsKey \<mapsto> (AnnotationsJSON [poi], defaultTTL)]) allAnnotationsKey =
     Some (AnnotationsJSON [poi], defaultTTL) \<and>
   snd (Handler_GetByID (quiet [poi] [allAnnotationsKey \<mapsto> (AnnotationsJSON [poi], defaultTTL)])
          (ID poi)) = AnnotationResponse StatusOK poi \<and>
   redis (fst (Handler_GetByID (quiet [poi] [allAnnotationsKey \<mapsto> (AnnotationsJSON [poi], defaultTTL)])
                 (ID poi))) (annotationKeyPrefix @ ID poi) = Some (AnnotationJSON poi, defaultTTL) \<and>
   redis (fst (Handler_GetByID (quiet [poi] [allAnnotationsKey \<mapsto> (AnnotationsJSON [poi], defaultTTL)])
                 (ID poi))) allAnnotationsKey = None"
proof -
  let ?w = "quiet [poi] [allAnnotationsKey \<mapsto> (AnnotationsJSON [poi], defaultTTL)]"
  have cached: "redis ?w allAnnotationsKey = Some (AnnotationsJSON [poi], defaultTTL)"
    by (simp add: quiet_def)
  have miss: "fst (snd (RedisCache_Get ?w (ID poi))) = None"
    by (simp add: RedisCache_Get_result quiet_def)
  have executes: "pg_errors ?w (pg_calls ?w) = None"
    by (simp add: quiet_def)
  have stored: "find (\<lambda>a. ID a = ID poi) (annotations ?w) = Some poi"
    by (simp add: quiet_def)
  have healthy: "redis_errors ?w (Suc (redis_calls ?w)) = None"
    "redis_errors ?w (Suc (Suc (redis_calls ?w))) = None"
    by (simp_all add: quiet_def)
  note served = GetByID_from_store_drops_aggregate [OF miss executes stored]
  have response: "snd (Handler_GetByID ?w (ID poi)) = AnnotationResponse StatusOK poi"
    using served [THEN conjunct1] by simp
  have entry: "redis (fst (Handler_GetByID ?w (ID poi))) (annotationKeyPrefix @ ID poi) =
           Some (AnnotationJSON poi, defaultTTL)"
    using served [THEN conjunct2, THEN conjunct2, THEN conjunct1] healthy(1) by (rule mp)
  have dropped: "redis (fst (Handler_GetByID ?w (ID poi))) allAnnotationsKey = None"
    by (rule mp [OF served [THEN conjunct2, THEN conjunct2, THEN conjunct2] conjI [OF healthy]])
  from cached response entry dropped show ?thesis by (intro conjI)
qed



end
